theory Spec2Isabelle
  imports Complex_Main
begin

section \<open>Data model\<close>

text \<open>
  A pandas table as \<open>stock_chart_pro.py\<close> uses it: a row index (the timestamps), the
  column labels and the cells, stored column by column. The labels are either flat
  (\<open>Index\<close>) or the two-level \<open>(price, symbol)\<close> scheme of the data provider
  (\<open>MultiIndex\<close>). Labels may repeat.
\<close>

datatype col_index = Index "string list" | MultiIndex "(string \<times> string) list"

record ('i, 'a) dataframe =
  df_index :: "'i list"
  df_columns :: col_index
  df_cells :: "'a list list"

definition ncols :: "col_index \<Rightarrow> nat" where
  "ncols c = (case c of Index ls \<Rightarrow> length ls | MultiIndex ps \<Rightarrow> length ps)"

text \<open>\<open>df.empty\<close>: true when either axis has length zero.\<close>

definition empty_df :: "('i, 'a) dataframe \<Rightarrow> bool" where
  "empty_df df = (length (df_index df) = 0 \<or> ncols (df_columns df) = 0)"

text \<open>\<open>df.columns.get_level_values(0)\<close>; a flat index is its own level 0.\<close>

definition get_level_values0 :: "col_index \<Rightarrow> string list" where
  "get_level_values0 c = (case c of Index ls \<Rightarrow> ls | MultiIndex ps \<Rightarrow> map fst ps)"

text \<open>The exceptions the modelled code can raise, as values.\<close>

datatype error = KeyError | IndexError | ValueError

section \<open>Series normalizer\<close>

text \<open>\<open>str.lower\<close> on the ASCII letters, which are the only ones the five names use.\<close>

fun lower_char :: "char \<Rightarrow> char" where
  "lower_char (Char b0 b1 b2 b3 b4 b5 b6 b7) =
     (let n = (of_char (Char b0 b1 b2 b3 b4 b5 b6 b7) :: nat)
      in if 65 \<le> n \<and> n \<le> 90 then Char b0 b1 b2 b3 b4 True b6 b7
         else Char b0 b1 b2 b3 b4 b5 b6 b7)"

definition lower :: "string \<Rightarrow> string" where
  "lower s = map lower_char s"

definition expected_cols :: "string list" where
  "expected_cols = [''Open'', ''High'', ''Low'', ''Close'', ''Volume'']"

text \<open>\<open>df.rename(columns={existing_col: col})\<close>: every column carrying the old label.\<close>

definition rename_columns :: "string \<Rightarrow> string \<Rightarrow> string list \<Rightarrow> string list" where
  "rename_columns existing_col col ls = map (\<lambda>l. if l = existing_col then col else l) ls"

text \<open>
  One pass of the outer loop of \<open>fix_dataframe_columns\<close>: when \<open>col\<close> is not a label,
  the inner loop stops at the first label equal to it up to case and renames that label.
\<close>

definition fix_col :: "string list \<Rightarrow> string \<Rightarrow> string list" where
  "fix_col ls col =
     (if col \<in> set ls then ls
      else case find (\<lambda>existing_col. lower existing_col = lower col) ls of
             None \<Rightarrow> ls
           | Some existing_col \<Rightarrow> rename_columns existing_col col ls)"

definition fix_dataframe_columns ::
    "('i, 'a) dataframe option \<Rightarrow> ('i, 'a) dataframe option" where
  "fix_dataframe_columns dfo =
     (case dfo of
        None \<Rightarrow> None
      | Some df \<Rightarrow>
          if empty_df df then Some df
          else Some (df\<lparr>df_columns :=
                 Index (foldl fix_col (get_level_values0 (df_columns df)) expected_cols)\<rparr>))"

text \<open>
  The data provider is outside the program: \<open>yf.download\<close> either raises, with a
  message, or returns a table.
\<close>

datatype ('i, 'a) provider_result = Raises string | Returns "('i, 'a) dataframe"

definition download_stock_data ::
    "('i, 'a) provider_result \<Rightarrow> ('i, 'a) dataframe option \<times> string option" where
  "download_stock_data r =
     (case r of
        Raises msg \<Rightarrow> (None, Some msg)
      | Returns data \<Rightarrow>
          if empty_df data then (None, Some ''No data available for this combination'')
          else (fix_dataframe_columns (Some data), None))"

section \<open>Series and floating-point values\<close>

text \<open>
  A value of a pandas series: a finite number, an infinity or not-a-number. A finite
  number is a real; the sign of zero is not represented. The operations \<open>fadd\<close>,
  \<open>fsub\<close>, \<open>fmul\<close> and \<open>fdiv\<close> below are exact on finite numbers and follow IEEE 754 on
  the special values, which is what numpy does with its warnings silenced: a division by
  zero yields an infinity or \<open>NaN\<close>, it never raises. \<open>NaN\<close> is the "undefined" point of
  an indicator series. The rounding of a result to a binary64 number is \<open>fround\<close>,
  further down.
\<close>

datatype fval = Fin real | PInf | NInf | NaN

fun is_fin :: "fval \<Rightarrow> bool" where
  "is_fin (Fin r) = True"
| "is_fin v = False"

fun fneg :: "fval \<Rightarrow> fval" where
  "fneg (Fin a) = Fin (- a)"
| "fneg PInf = NInf"
| "fneg NInf = PInf"
| "fneg NaN = NaN"

fun fadd :: "fval \<Rightarrow> fval \<Rightarrow> fval" where
  "fadd NaN v = NaN"
| "fadd v NaN = NaN"
| "fadd (Fin a) (Fin b) = Fin (a + b)"
| "fadd PInf NInf = NaN"
| "fadd NInf PInf = NaN"
| "fadd PInf v = PInf"
| "fadd v PInf = PInf"
| "fadd NInf v = NInf"
| "fadd v NInf = NInf"

definition fsub :: "fval \<Rightarrow> fval \<Rightarrow> fval" where
  "fsub a b = fadd a (fneg b)"

text \<open>The infinity of the sign of a product or quotient; \<open>NaN\<close> for \<open>0 * inf\<close> and \<open>0 / 0\<close>.\<close>

definition inf_of_sign :: "real \<Rightarrow> fval" where
  "inf_of_sign s = (if 0 < s then PInf else if s < 0 then NInf else NaN)"

fun fmul :: "fval \<Rightarrow> fval \<Rightarrow> fval" where
  "fmul NaN v = NaN"
| "fmul v NaN = NaN"
| "fmul (Fin a) (Fin b) = Fin (a * b)"
| "fmul (Fin a) PInf = inf_of_sign a"
| "fmul (Fin a) NInf = inf_of_sign (- a)"
| "fmul PInf (Fin b) = inf_of_sign b"
| "fmul NInf (Fin b) = inf_of_sign (- b)"
| "fmul PInf PInf = PInf"
| "fmul NInf NInf = PInf"
| "fmul PInf NInf = NInf"
| "fmul NInf PInf = NInf"

fun fdiv :: "fval \<Rightarrow> fval \<Rightarrow> fval" where
  "fdiv NaN v = NaN"
| "fdiv v NaN = NaN"
| "fdiv (Fin a) (Fin b) = (if b = 0 then inf_of_sign a else Fin (a / b))"
| "fdiv (Fin a) v = Fin 0"
| "fdiv PInf (Fin b) = (if b < 0 then NInf else PInf)"
| "fdiv NInf (Fin b) = (if b < 0 then PInf else NInf)"
| "fdiv v w = NaN"

text \<open>The comparisons \<open>a > b\<close> and \<open>a < b\<close>: false as soon as one side is \<open>NaN\<close>.\<close>

fun fgt :: "fval \<Rightarrow> fval \<Rightarrow> bool" where
  "fgt NaN v = False"
| "fgt v NaN = False"
| "fgt (Fin a) (Fin b) = (b < a)"
| "fgt PInf PInf = False"
| "fgt PInf v = True"
| "fgt v PInf = False"
| "fgt NInf v = False"
| "fgt v NInf = True"

definition flt :: "fval \<Rightarrow> fval \<Rightarrow> bool" where
  "flt a b = fgt b a"

text \<open>
  Rounding to binary64, to the nearest representable number with ties to the even
  significand. A number of binary exponent \<open>e\<close> is a multiple of \<open>2 ^ (e - 52)\<close>; below
  the normal range (\<open>e < -1022\<close>) the spacing stays \<open>2 ^ -1074\<close>; a result of magnitude
  \<open>2 ^ 1024\<close> or more is an infinity.
\<close>

definition round_even :: "real \<Rightarrow> int" where
  "round_even y =
     (let f = \<lfloor>y\<rfloor>; d = y - of_int f
      in if d < 1 / 2 then f else if 1 / 2 < d then f + 1 else if even f then f else f + 1)"

definition float64_ulp :: "real \<Rightarrow> real" where
  "float64_ulp x = 2 powr of_int (max \<lfloor>log 2 \<bar>x\<bar>\<rfloor> (- 1022) - 52)"

definition round64 :: "real \<Rightarrow> fval" where
  "round64 x =
     (if x = 0 then Fin 0
      else (let u = float64_ulp x; r = of_int (round_even (x / u)) * u
            in if 2 ^ 1024 \<le> \<bar>r\<bar> then (if 0 < x then PInf else NInf) else Fin r))"

fun fround :: "fval \<Rightarrow> fval" where
  "fround (Fin x) = round64 x"
| "fround v = v"

text \<open>
  The float operations \<open>+\<close>, \<open>-\<close>, \<open>*\<close> and \<open>/\<close> as the machine performs them: the exact
  result, rounded. They are used in the Bollinger bands and in the comparison summary,
  where the program sets two separately rounded results against each other; everywhere
  else the arithmetic is kept exact.
\<close>

definition add64 :: "fval \<Rightarrow> fval \<Rightarrow> fval" where
  "add64 a b = fround (fadd a b)"

definition sub64 :: "fval \<Rightarrow> fval \<Rightarrow> fval" where
  "sub64 a b = fround (fsub a b)"

definition mul64 :: "fval \<Rightarrow> fval \<Rightarrow> fval" where
  "mul64 a b = fround (fmul a b)"

definition div64 :: "fval \<Rightarrow> fval \<Rightarrow> fval" where
  "div64 a b = fround (fdiv a b)"

record 'i series =
  s_index :: "'i list"
  s_values :: "fval list"

text \<open>
  The cells of an OHLCV table are finite numbers. \<open>data['Close']\<close> raises \<open>KeyError\<close>
  when no column has that outer label; when several have it the result is a table and
  \<open>iloc[:, 0]\<close> takes the first, which is also what the lookup in an association list does.
\<close>

definition close_column :: "('i, real) dataframe \<Rightarrow> real list option" where
  "close_column data =
     map_of (zip (get_level_values0 (df_columns data)) (df_cells data)) ''Close''"

definition get_close :: "('i, real) dataframe \<Rightarrow> error + 'i series" where
  "get_close data =
     (case close_column data of
        None \<Rightarrow> Inl KeyError
      | Some col \<Rightarrow> Inr \<lparr>s_index = df_index data, s_values = map Fin col\<rparr>)"

section \<open>The pandas operations the indicators call\<close>

text \<open>
  The indicators are one-line calls into pandas. The operations are library code, not
  code of the program; they are written here as the library documents them, on values
  that may be \<open>NaN\<close> or infinite.
\<close>

text \<open>
  \<open>rolling(window=w)\<close> looks at the points \<open>max 0 (i + 1 - w) .. i\<close>; its
  \<open>min_periods\<close> defaults to \<open>w\<close>. Infinities are turned into \<open>NaN\<close> first and \<open>NaN\<close>
  is not an observation. A negative window is refused.
\<close>

definition window_at :: "nat \<Rightarrow> nat \<Rightarrow> 'a list \<Rightarrow> 'a list" where
  "window_at w i vs = drop (Suc i - w) (take (Suc i) vs)"

definition observations :: "fval list \<Rightarrow> real list" where
  "observations vs = concat (map (\<lambda>v. case v of Fin r \<Rightarrow> [r] | _ \<Rightarrow> []) vs)"

definition mean :: "real list \<Rightarrow> real" where
  "mean obs = sum_list obs / real (length obs)"

definition rolling_mean :: "int \<Rightarrow> fval list \<Rightarrow> error + fval list" where
  "rolling_mean window vs =
     (if window < 0 then Inl ValueError
      else Inr (map (\<lambda>i. let obs = observations (window_at (nat window) i vs);
                             nobs = length obs
                         in if nat window \<le> nobs \<and> 0 < nobs then Fin (mean obs) else NaN)
                    [0..<length vs]))"

text \<open>\<open>rolling(window=w).std()\<close>: the sample standard deviation (\<open>ddof = 1\<close>).\<close>

definition sample_std :: "real list \<Rightarrow> real" where
  "sample_std obs =
     sqrt (sum_list (map (\<lambda>x. (x - mean obs)\<^sup>2) obs) / (real (length obs) - 1))"

definition rolling_std :: "int \<Rightarrow> fval list \<Rightarrow> error + fval list" where
  "rolling_std window vs =
     (if window < 0 then Inl ValueError
      else Inr (map (\<lambda>i. let obs = observations (window_at (nat window) i vs);
                             nobs = length obs
                         in if nat window \<le> nobs \<and> 1 < nobs then Fin (sample_std obs) else NaN)
                    [0..<length vs]))"

text \<open>
  \<open>ewm(span=s, adjust=False).mean()\<close>, with \<open>ignore_na\<close> and \<open>min_periods\<close> at their
  defaults: the running weighted value, and the weight the old value has lost since the
  last observation. A span below 1 is refused.
\<close>

fun ewm_loop :: "real \<Rightarrow> fval \<Rightarrow> real \<Rightarrow> fval list \<Rightarrow> fval list" where
  "ewm_loop alpha weighted old_wt [] = []"
| "ewm_loop alpha weighted old_wt (cur # rest) =
     (let (weighted', old_wt') =
        (if weighted \<noteq> NaN then
           (let ow = old_wt * (1 - alpha) in
            if cur \<noteq> NaN then
              (if weighted \<noteq> cur
               then fdiv (fadd (fmul (Fin ow) weighted) (fmul (Fin alpha) cur)) (Fin (ow + alpha))
               else weighted, 1)
            else (weighted, ow))
         else if cur \<noteq> NaN then (cur, old_wt) else (weighted, old_wt))
      in weighted' # ewm_loop alpha weighted' old_wt' rest)"

definition ewm_mean :: "int \<Rightarrow> fval list \<Rightarrow> error + fval list" where
  "ewm_mean spn vs =
     (if spn < 1 then Inl ValueError
      else Inr (case vs of
                  [] \<Rightarrow> []
                | v # rest \<Rightarrow> v # ewm_loop (2 / (real_of_int spn + 1)) v 1 rest))"

text \<open>\<open>diff()\<close>: the first point has no predecessor.\<close>

definition diff :: "fval list \<Rightarrow> fval list" where
  "diff vs = (case vs of [] \<Rightarrow> [] | v # rest \<Rightarrow> NaN # map2 fsub rest vs)"

text \<open>\<open>s.where(cond, other)\<close> keeps a point where the condition holds.\<close>

definition where_cond :: "(fval \<Rightarrow> bool) \<Rightarrow> fval \<Rightarrow> fval list \<Rightarrow> fval list" where
  "where_cond cond other vs = map (\<lambda>v. if cond v then v else other) vs"

section \<open>Technical indicators\<close>

definition calculate_sma :: "('i, real) dataframe \<Rightarrow> int \<Rightarrow> error + 'i series" where
  "calculate_sma data window =
     (case get_close data of
        Inl e \<Rightarrow> Inl e
      | Inr close \<Rightarrow>
          (case rolling_mean window (s_values close) of
             Inl e \<Rightarrow> Inl e
           | Inr vs \<Rightarrow> Inr (close\<lparr>s_values := vs\<rparr>)))"

definition calculate_ema :: "('i, real) dataframe \<Rightarrow> int \<Rightarrow> error + 'i series" where
  "calculate_ema data window =
     (case get_close data of
        Inl e \<Rightarrow> Inl e
      | Inr close \<Rightarrow>
          (case ewm_mean window (s_values close) of
             Inl e \<Rightarrow> Inl e
           | Inr vs \<Rightarrow> Inr (close\<lparr>s_values := vs\<rparr>)))"

definition calculate_bollinger_bands ::
    "('i, real) dataframe \<Rightarrow> int \<Rightarrow> real \<Rightarrow> error + ('i series \<times> 'i series \<times> 'i series)" where
  "calculate_bollinger_bands data window num_std =
     (case calculate_sma data window of
        Inl e \<Rightarrow> Inl e
      | Inr sma \<Rightarrow>
          (case get_close data of
             Inl e \<Rightarrow> Inl e
           | Inr close \<Rightarrow>
               (case rolling_std window (s_values close) of
                  Inl e \<Rightarrow> Inl e
                | Inr std \<Rightarrow>
                    (let upper_band = sma\<lparr>s_values :=
                           map2 add64 (s_values sma) (map (\<lambda>s. mul64 s (Fin num_std)) std)\<rparr>;
                         lower_band = sma\<lparr>s_values :=
                           map2 sub64 (s_values sma) (map (\<lambda>s. mul64 s (Fin num_std)) std)\<rparr>
                     in Inr (upper_band, sma, lower_band)))))"

text \<open>The two rolling averages of \<open>calculate_rsi\<close>, its locals \<open>gain\<close> and \<open>loss\<close>.\<close>

definition rsi_gain :: "fval list \<Rightarrow> int \<Rightarrow> error + fval list" where
  "rsi_gain close window =
     (let delta = diff close
      in rolling_mean window (where_cond (\<lambda>d. fgt d (Fin 0)) (Fin 0) delta))"

definition rsi_loss :: "fval list \<Rightarrow> int \<Rightarrow> error + fval list" where
  "rsi_loss close window =
     (let delta = diff close
      in rolling_mean window (map fneg (where_cond (\<lambda>d. flt d (Fin 0)) (Fin 0) delta)))"

definition calculate_rsi :: "('i, real) dataframe \<Rightarrow> int \<Rightarrow> error + 'i series" where
  "calculate_rsi data window =
     (case get_close data of
        Inl e \<Rightarrow> Inl e
      | Inr close \<Rightarrow>
          (case rsi_gain (s_values close) window of
             Inl e \<Rightarrow> Inl e
           | Inr gain \<Rightarrow>
               (case rsi_loss (s_values close) window of
                  Inl e \<Rightarrow> Inl e
                | Inr loss \<Rightarrow>
                    (let rs = map2 fdiv gain loss;
                         rsi = map (\<lambda>r. fsub (Fin 100) (fdiv (Fin 100) (fadd (Fin 1) r))) rs
                     in Inr (close\<lparr>s_values := rsi\<rparr>)))))"

definition calculate_macd ::
    "('i, real) dataframe \<Rightarrow> int \<Rightarrow> int \<Rightarrow> int \<Rightarrow>
       error + ('i series \<times> 'i series \<times> 'i series)" where
  "calculate_macd data fast slow signal =
     (case get_close data of
        Inl e \<Rightarrow> Inl e
      | Inr close \<Rightarrow>
          (case ewm_mean fast (s_values close) of
             Inl e \<Rightarrow> Inl e
           | Inr ema_fast \<Rightarrow>
               (case ewm_mean slow (s_values close) of
                  Inl e \<Rightarrow> Inl e
                | Inr ema_slow \<Rightarrow>
                    (let macd_line = map2 fsub ema_fast ema_slow
                     in case ewm_mean signal macd_line of
                          Inl e \<Rightarrow> Inl e
                        | Inr signal_line \<Rightarrow>
                            Inr (close\<lparr>s_values := macd_line\<rparr>,
                                 close\<lparr>s_values := signal_line\<rparr>,
                                 close\<lparr>s_values := map2 fsub macd_line signal_line\<rparr>)))))"

section \<open>Summary reporter\<close>

text \<open>
  \<open>print_comparison_summary\<close> prints; the model returns what it prints. Indexing an
  empty array raises \<open>IndexError\<close>.
\<close>

datatype asset = VOO | JEPI

record comparison =
  voo_latest :: fval
  jepi_latest :: fval
  voo_return :: fval
  jepi_return :: fval
  outperformer :: asset
  differential :: fval

definition get_column_values :: "('i, real) dataframe \<Rightarrow> error + fval list" where
  "get_column_values data =
     (case get_close data of Inl e \<Rightarrow> Inl e | Inr close \<Rightarrow> Inr (s_values close))"

definition period_return :: "fval list \<Rightarrow> error + fval" where
  "period_return close =
     (if close = [] then Inl IndexError
      else Inr (mul64 (div64 (sub64 (last close) (hd close)) (hd close)) (Fin 100)))"

definition print_comparison_summary ::
    "('i, real) dataframe \<Rightarrow> ('i, real) dataframe \<Rightarrow> error + comparison" where
  "print_comparison_summary voo_data jepi_data =
     (case get_column_values voo_data of
        Inl e \<Rightarrow> Inl e
      | Inr voo_close \<Rightarrow>
          (case get_column_values jepi_data of
             Inl e \<Rightarrow> Inl e
           | Inr jepi_close \<Rightarrow>
               (case period_return voo_close of
                  Inl e \<Rightarrow> Inl e
                | Inr voo_ret \<Rightarrow>
                    (case period_return jepi_close of
                       Inl e \<Rightarrow> Inl e
                     | Inr jepi_ret \<Rightarrow>
                         Inr \<lparr>voo_latest = last voo_close, jepi_latest = last jepi_close,
                              voo_return = voo_ret, jepi_return = jepi_ret,
                              outperformer = (if fgt voo_ret jepi_ret then VOO else JEPI),
                              differential = (if fgt voo_ret jepi_ret
                                              then sub64 voo_ret jepi_ret
                                              else sub64 jepi_ret voo_ret)\<rparr>))))"

section \<open>Notions used to state the properties\<close>

text \<open>
  In the words of the specification: a label \<open>l\<close> is renamed to the required column \<open>c\<close>
  when \<open>c\<close> is not a label of the table and \<open>l\<close> is the first label equal to \<open>c\<close> up to
  case; each label becomes the required column it is renamed to, if there is one.
\<close>

definition renamed_to :: "string list \<Rightarrow> string \<Rightarrow> string \<Rightarrow> bool" where
  "renamed_to ls l c = (c \<notin> set ls \<and> find (\<lambda>e. lower e = lower c) ls = Some l)"

definition normalized_label :: "string list \<Rightarrow> string \<Rightarrow> string" where
  "normalized_label ls l =
     (case find (renamed_to ls l) expected_cols of None \<Rightarrow> l | Some c \<Rightarrow> c)"

text \<open>
  The recurrence of the specification for the exponential moving average:
  \<open>y\<^sub>0 = x\<^sub>0\<close> and \<open>y\<^sub>t = (1 - a) * y\<^sub>t\<^sub>-\<^sub>1 + a * x\<^sub>t\<close>.
\<close>

fun ema_rec :: "real \<Rightarrow> real list \<Rightarrow> nat \<Rightarrow> real" where
  "ema_rec a xs 0 = xs ! 0"
| "ema_rec a xs (Suc t) = (1 - a) * ema_rec a xs t + a * xs ! Suc t"

text \<open>The loop of \<open>ewm_loop\<close> on finite numbers, where it only carries the last value.\<close>

fun ema_run :: "real \<Rightarrow> real \<Rightarrow> real list \<Rightarrow> real list" where
  "ema_run a y [] = []"
| "ema_run a y (x # xs) = ((1 - a) * y + a * x) # ema_run a ((1 - a) * y + a * x) xs"

definition ema_list :: "real \<Rightarrow> real list \<Rightarrow> real list" where
  "ema_list a xs = (case xs of [] \<Rightarrow> [] | x # rest \<Rightarrow> x # ema_run a x rest)"

text \<open>
  The positive and the negative part of the day-to-day changes of \<open>calculate_rsi\<close>, as
  numbers: the first point has no change and counts as 0 in both.
\<close>

definition gains :: "real list \<Rightarrow> real list" where
  "gains xs =
     (case xs of [] \<Rightarrow> [] | x # rest \<Rightarrow> 0 # map2 (\<lambda>b a. if 0 < b - a then b - a else 0) rest xs)"

definition losses :: "real list \<Rightarrow> real list" where
  "losses xs =
     (case xs of [] \<Rightarrow> [] | x # rest \<Rightarrow> 0 # map2 (\<lambda>b a. if b - a < 0 then a - b else 0) rest xs)"

section \<open>The normalizer: proofs\<close>

lemma distinct_lower_expected: "distinct (map lower expected_cols)"
  by (simp add: expected_cols_def lower_def)

lemma find_SomeD: "find P xs = Some x \<Longrightarrow> P x \<and> x \<in> set xs"
  by (induction xs) (auto split: if_splits)

lemma find_snoc:
  "find P (xs @ [x]) =
     (case find P xs of None \<Rightarrow> (if P x then Some x else None) | Some y \<Rightarrow> Some y)"
  by (induction xs) auto

lemma find_map_stable:
  "(\<And>l. l \<in> set ls \<Longrightarrow> P (f l) = P l \<and> (P l \<longrightarrow> f l = l)) \<Longrightarrow>
     find P (map f ls) = find P ls"
  by (induction ls) auto

lemma renamed_to_lower: "renamed_to ls l c \<Longrightarrow> lower l = lower c"
  by (auto simp: renamed_to_def dest: find_SomeD)

text \<open>One pass of the loop renames exactly the labels that are renamed to its column.\<close>

lemma fix_col_as_map: "fix_col ls col = map (\<lambda>l. if renamed_to ls l col then col else l) ls"
proof (cases "col \<in> set ls")
  case True
  then show ?thesis by (simp add: fix_col_def renamed_to_def)
next
  case False
  show ?thesis
  proof (cases "find (\<lambda>e. lower e = lower col) ls")
    case None
    with False show ?thesis by (simp add: fix_col_def renamed_to_def)
  next
    case (Some e)
    with False show ?thesis
      by (auto simp: fix_col_def renamed_to_def rename_columns_def)
  qed
qed

text \<open>A pass for one column does not change what happens to a column of another name.\<close>

lemma renamed_to_fix_col:
  assumes "lower c \<noteq> lower col"
  shows "renamed_to (fix_col ls col) l c = renamed_to ls l c"
proof -
  let ?f = "\<lambda>l. if renamed_to ls l col then col else l"
  have mem: "c \<in> set (map ?f ls) \<longleftrightarrow> c \<in> set ls"
    using assms by (auto simp: image_iff dest: renamed_to_lower)
  have "find (\<lambda>e. lower e = lower c) (map ?f ls) = find (\<lambda>e. lower e = lower c) ls"
    by (rule find_map_stable) (use assms in \<open>auto dest: renamed_to_lower\<close>)
  with mem show ?thesis
    by (simp add: fix_col_as_map renamed_to_def)
qed

lemma renamed_to_foldl:
  "\<forall>c'\<in>set cs. lower c \<noteq> lower c' \<Longrightarrow>
     renamed_to (foldl fix_col ls cs) l c = renamed_to ls l c"
  by (induction cs arbitrary: ls) (simp_all add: renamed_to_fix_col)

lemma foldl_fix_col_gen:
  "distinct (map lower cs) \<Longrightarrow>
     foldl fix_col ls cs =
       map (\<lambda>l. case find (renamed_to ls l) cs of None \<Rightarrow> l | Some c \<Rightarrow> c) ls"
proof (induction cs rule: rev_induct)
  case Nil
  show ?case by simp
next
  case (snoc c cs)
  then have d: "\<forall>c'\<in>set cs. lower c \<noteq> lower c'" and dist: "distinct (map lower cs)"
    by auto
  have step:
    "(if renamed_to ls (case find (renamed_to ls l) cs of None \<Rightarrow> l | Some c' \<Rightarrow> c') c
      then c else (case find (renamed_to ls l) cs of None \<Rightarrow> l | Some c' \<Rightarrow> c'))
     = (case find (renamed_to ls l) (cs @ [c]) of None \<Rightarrow> l | Some c' \<Rightarrow> c')" for l
  proof (cases "find (renamed_to ls l) cs")
    case None
    then show ?thesis by (simp add: find_snoc)
  next
    case (Some c')
    then have "c' \<in> set cs" by (auto dest: find_SomeD)
    with d have "\<not> renamed_to ls c' c"
      using renamed_to_lower [of ls c' c] by auto
    with Some show ?thesis by (simp add: find_snoc)
  qed
  have "foldl fix_col ls (cs @ [c]) = fix_col (foldl fix_col ls cs) c" by simp
  also have "\<dots> = map (\<lambda>l. if renamed_to ls l c then c else l) (foldl fix_col ls cs)"
    by (simp add: fix_col_as_map renamed_to_foldl [OF d])
  also have "\<dots> =
      map (\<lambda>l. case find (renamed_to ls l) (cs @ [c]) of None \<Rightarrow> l | Some c' \<Rightarrow> c') ls"
    by (simp add: snoc.IH [OF dist] step)
  finally show ?case .
qed

lemma foldl_fix_col: "foldl fix_col ls expected_cols = map (normalized_label ls) ls"
  by (simp add: foldl_fix_col_gen [OF distinct_lower_expected] normalized_label_def)

lemma normalized_label_first_match:
  assumes "c \<in> set expected_cols" and "renamed_to ls e c"
  shows "normalized_label ls e = c"
proof -
  obtain c' where f: "find (renamed_to ls e) expected_cols = Some c'"
    using assms by (cases "find (renamed_to ls e) expected_cols") (auto simp: find_None_iff)
  then have "c' \<in> set expected_cols" and "renamed_to ls e c'"
    by (auto dest: find_SomeD)
  then have "lower c' = lower c"
    using renamed_to_lower [of ls e c] renamed_to_lower [of ls e c'] assms(2) by simp
  with \<open>c' \<in> set expected_cols\<close> assms(1) have "c' = c"
    using distinct_lower_expected by (auto simp: distinct_map inj_on_def)
  with f show ?thesis by (simp add: normalized_label_def)
qed

lemma normalized_label_cases:
  "normalized_label ls l = l \<or>
     (\<exists>c\<in>set expected_cols. renamed_to ls l c \<and> normalized_label ls l = c)"
  by (cases "find (renamed_to ls l) expected_cols")
     (auto simp: normalized_label_def dest: find_SomeD)

lemma normalized_absent:
  assumes "c \<notin> set ls" and "find (\<lambda>e. lower e = lower c) ls = None"
  shows "c \<notin> set (map (normalized_label ls) ls)"
proof
  assume "c \<in> set (map (normalized_label ls) ls)"
  then obtain l where l: "l \<in> set ls" "normalized_label ls l = c" by auto
  from normalized_label_cases [of ls l] l assms show False
    by (auto simp: renamed_to_def)
qed

lemma fix_dataframe_columns_nonempty:
  "\<not> empty_df df \<Longrightarrow>
     fix_dataframe_columns (Some df) =
       Some (df\<lparr>df_columns := Index (map (normalized_label (get_level_values0 (df_columns df)))
                                        (get_level_values0 (df_columns df)))\<rparr>)"
  by (simp add: fix_dataframe_columns_def foldl_fix_col)

text \<open>
  C7, as the code has it. An empty table is returned as it is, still nested, so the
  property holds for the tables that have a row and a column. For such a table with
  two-level columns \<open>ps\<close>, \<open>fix_dataframe_columns\<close> returns the same table (same index,
  same cells) with flat labels \<open>out\<close>, one per column: a label that is not the first
  case-insensitive match of an absent required column is the outer level of the old
  label; and for each of the five required columns that is not an outer label, either no
  outer label equals it up to case and it stays absent, or every column carrying the
  first such label now carries the required name.
\<close>

theorem fix_dataframe_columns_nested:
  assumes "df_columns df = MultiIndex ps" and "\<not> empty_df df"
  shows "\<exists>out. fix_dataframe_columns (Some df) = Some (df\<lparr>df_columns := Index out\<rparr>)
           \<and> length out = length ps
           \<and> (\<forall>j<length ps.
                 (\<forall>c\<in>set expected_cols. \<not> renamed_to (map fst ps) (fst (ps ! j)) c)
                   \<longrightarrow> out ! j = fst (ps ! j))
           \<and> (\<forall>c\<in>set expected_cols. c \<notin> set (map fst ps) \<longrightarrow>
                 (case find (\<lambda>e. lower e = lower c) (map fst ps) of
                    None \<Rightarrow> c \<notin> set out
                  | Some e \<Rightarrow> \<forall>j<length ps. fst (ps ! j) = e \<longrightarrow> out ! j = c))"
proof -
  let ?ls = "map fst ps"
  let ?out = "map (normalized_label ?ls) ?ls"
  have ls: "get_level_values0 (df_columns df) = ?ls"
    using assms(1) by (simp add: get_level_values0_def)
  have 1: "fix_dataframe_columns (Some df) = Some (df\<lparr>df_columns := Index ?out\<rparr>)"
    using fix_dataframe_columns_nonempty [OF assms(2)] ls by simp
  have 2: "length ?out = length ps" by simp
  have 3: "?out ! j = fst (ps ! j)"
    if "j < length ps" "\<forall>c\<in>set expected_cols. \<not> renamed_to ?ls (fst (ps ! j)) c" for j
    using that normalized_label_cases [of ?ls "fst (ps ! j)"] by auto
  have 4: "case find (\<lambda>e. lower e = lower c) ?ls of
             None \<Rightarrow> c \<notin> set ?out
           | Some e \<Rightarrow> \<forall>j<length ps. fst (ps ! j) = e \<longrightarrow> ?out ! j = c"
    if c: "c \<in> set expected_cols" "c \<notin> set ?ls" for c
  proof (cases "find (\<lambda>e. lower e = lower c) ?ls")
    case None
    with c(2) show ?thesis using normalized_absent [of c ?ls] by simp
  next
    case (Some e)
    with c(2) have "renamed_to ?ls e c" by (simp add: renamed_to_def)
    then have "normalized_label ?ls e = c"
      by (rule normalized_label_first_match [OF c(1)])
    with Some show ?thesis by auto
  qed
  from 1 2 3 4 show ?thesis by blast
qed

theorem fix_dataframe_columns_nested_witness:
  "\<not> empty_df \<lparr>df_index = [0::nat], df_columns = MultiIndex
       [(''close'', ''VOO''), (''CLOSE'', ''VOO''), (''Open'', ''VOO''), (''close'', ''VOO''),
        (''Adj Close'', ''VOO'')],
       df_cells = [[1::real], [2], [3], [4], [5]]\<rparr>
   \<and> fix_dataframe_columns (Some \<lparr>df_index = [0::nat], df_columns = MultiIndex
       [(''close'', ''VOO''), (''CLOSE'', ''VOO''), (''Open'', ''VOO''), (''close'', ''VOO''),
        (''Adj Close'', ''VOO'')],
       df_cells = [[1::real], [2], [3], [4], [5]]\<rparr>)
     = Some \<lparr>df_index = [0], df_columns = Index
         [''Close'', ''CLOSE'', ''Open'', ''Close'', ''Adj Close''],
         df_cells = [[1], [2], [3], [4], [5]]\<rparr>"
  using fix_dataframe_columns_nested [of
      "\<lparr>df_index = [0::nat], df_columns = MultiIndex
       [(''close'', ''VOO''), (''CLOSE'', ''VOO''), (''Open'', ''VOO''), (''close'', ''VOO''),
        (''Adj Close'', ''VOO'')],
       df_cells = [[1::real], [2], [3], [4], [5]]\<rparr>"
      "[(''close'', ''VOO''), (''CLOSE'', ''VOO''), (''Open'', ''VOO''), (''close'', ''VOO''),
        (''Adj Close'', ''VOO'')]"]
  by (simp add: empty_df_def ncols_def fix_dataframe_columns_def get_level_values0_def
      expected_cols_def fix_col_def rename_columns_def lower_def)

text \<open>
  C7 as it is written fails on an empty table: a nested table without rows comes back
  with its two-level columns, and its \<open>close\<close> column is not renamed.
\<close>

theorem fix_dataframe_columns_nested_counterexample:
  "fix_dataframe_columns
     (Some \<lparr>df_index = ([] :: nat list), df_columns = MultiIndex [(''close'', ''VOO'')],
            df_cells = [[] :: real list]\<rparr>)
   = Some \<lparr>df_index = [], df_columns = MultiIndex [(''close'', ''VOO'')], df_cells = [[]]\<rparr>"
  by (simp add: fix_dataframe_columns_def empty_df_def)

text \<open>
  C8: when the provider returns a table with zero rows, \<open>download_stock_data\<close> returns no
  series together with the "no data" message.
\<close>

theorem download_stock_data_no_data:
  "length (df_index data) = 0 \<Longrightarrow>
     download_stock_data (Returns data)
       = (None, Some ''No data available for this combination'')"
  by (simp add: download_stock_data_def empty_df_def)

theorem download_stock_data_no_data_witness:
  "length (df_index \<lparr>df_index = ([] :: nat list), df_columns = Index [''Close''],
                     df_cells = [[] :: real list]\<rparr>) = 0
   \<and> download_stock_data (Returns \<lparr>df_index = ([] :: nat list), df_columns = Index [''Close''],
                                   df_cells = [[] :: real list]\<rparr>)
       = (None, Some ''No data available for this combination'')"
  using download_stock_data_no_data [of
      "\<lparr>df_index = ([] :: nat list), df_columns = Index [''Close''],
        df_cells = [[] :: real list]\<rparr>"]
  by simp

text \<open>
  C10: \<open>fix_dataframe_columns\<close> returns \<open>None\<close> for \<open>None\<close>; for a table it returns a table
  with the same index (hence the same number of rows) and the same cells, and an empty
  table is returned unchanged.
\<close>

theorem fix_dataframe_columns_frame:
  "fix_dataframe_columns None = (None :: ('i, 'a) dataframe option)
   \<and> (\<exists>df'. fix_dataframe_columns (Some (df :: ('i, 'a) dataframe)) = Some df'
         \<and> df_index df' = df_index df
         \<and> length (df_index df') = length (df_index df)
         \<and> df_cells df' = df_cells df
         \<and> (empty_df df \<longrightarrow> df' = df))"
  by (simp add: fix_dataframe_columns_def)

theorem fix_dataframe_columns_frame_witness:
  "empty_df \<lparr>df_index = ([] :: nat list), df_columns = Index [''close''],
             df_cells = [[] :: real list]\<rparr>
   \<and> fix_dataframe_columns (Some \<lparr>df_index = ([] :: nat list), df_columns = Index [''close''],
                                  df_cells = [[] :: real list]\<rparr>)
     = Some \<lparr>df_index = [], df_columns = Index [''close''], df_cells = [[]]\<rparr>"
  using fix_dataframe_columns_frame [of
      "\<lparr>df_index = ([] :: nat list), df_columns = Index [''close''],
        df_cells = [[] :: real list]\<rparr>"]
  by (auto simp: empty_df_def)

section \<open>Moving averages: proofs\<close>

lemma observations_map_Fin: "observations (map Fin xs) = xs"
  by (induction xs) (simp_all add: observations_def)

lemma window_at_map: "window_at w i (map f xs) = map f (window_at w i xs)"
  by (simp add: window_at_def drop_map take_map)

lemma length_window_at: "i < length xs \<Longrightarrow> length (window_at w i xs) = min w (Suc i)"
  by (auto simp: window_at_def)

lemma sum_list_window_at:
  assumes "i < length xs"
  shows "sum_list (window_at w i xs) = (\<Sum>j = Suc i - w..i. xs ! j)"
proof -
  let ?a = "Suc i - w"
  have len: "length (window_at w i xs) = Suc i - ?a"
    using assms by (auto simp: window_at_def)
  have "sum_list (window_at w i xs) = (\<Sum>k = 0..<Suc i - ?a. window_at w i xs ! k)"
    by (simp add: sum_list_sum_nth len)
  also have "\<dots> = (\<Sum>k = 0..<Suc i - ?a. xs ! (?a + k))"
    using assms by (intro sum.cong refl) (simp add: window_at_def)
  also have "\<dots> = (\<Sum>j = ?a..<Suc i. xs ! j)"
    using sum.shift_bounds_nat_ivl [of "\<lambda>j. xs ! j" 0 ?a "Suc i - ?a"] by (simp add: add.commute)
  also have "\<dots> = (\<Sum>j = ?a..i. xs ! j)"
    by (simp add: atLeastLessThanSuc_atLeastAtMost)
  finally show ?thesis .
qed

lemma rolling_mean_finite:
  assumes "0 \<le> window"
  shows "rolling_mean window (map Fin xs) =
           Inr (map (\<lambda>i. if nat window \<le> Suc i \<and> 0 < window
                          then Fin (mean (window_at (nat window) i xs)) else NaN)
                    [0..<length xs])"
proof -
  have "(nat window \<le> length (window_at (nat window) i xs) \<and>
           0 < length (window_at (nat window) i xs))
        = (nat window \<le> Suc i \<and> 0 < window)" if "i < length xs" for i
    using that assms by (auto simp: length_window_at)
  then show ?thesis
    using assms
    by (simp add: rolling_mean_def window_at_map observations_map_Fin Let_def)
qed

lemma count_full_windows:
  "1 \<le> w \<Longrightarrow> length (filter (\<lambda>i. w \<le> Suc i) [0..<n]) = Suc n - w"
  by (induction n) auto

lemma close_column_get_close:
  "close_column data = Some xs \<Longrightarrow>
     get_close data = Inr \<lparr>s_index = df_index data, s_values = map Fin xs\<rparr>"
  by (simp add: get_close_def)

text \<open>
  C1: on a table whose close column is \<open>xs\<close>, and for a window of at least 1,
  \<open>calculate_sma\<close> returns a series on the index of the table with one value per close
  value; exactly \<open>max 0 (L - w + 1)\<close> of them are defined, the first \<open>w - 1\<close> are not, and
  the value at a later index \<open>i\<close> is the arithmetic mean of the close values at the
  indices \<open>i - w + 1\<close> to \<open>i\<close>.
\<close>

theorem calculate_sma_trailing_mean:
  assumes "close_column data = Some xs" and "1 \<le> window"
  shows "\<exists>s. calculate_sma data window = Inr s
           \<and> s_index s = df_index data
           \<and> length (s_values s) = length xs
           \<and> length (filter (\<lambda>v. v \<noteq> NaN) (s_values s)) = (length xs + 1) - nat window
           \<and> (\<forall>i<length xs. i + 1 < nat window \<longrightarrow> s_values s ! i = NaN)
           \<and> (\<forall>i<length xs. nat window \<le> i + 1 \<longrightarrow>
                 s_values s ! i = Fin ((\<Sum>j = i + 1 - nat window..i. xs ! j) / real (nat window)))"
proof -
  let ?w = "nat window"
  let ?vs = "map (\<lambda>i. if ?w \<le> Suc i \<and> 0 < window
                       then Fin (mean (window_at ?w i xs)) else NaN) [0..<length xs]"
  have sma: "calculate_sma data window = Inr \<lparr>s_index = df_index data, s_values = ?vs\<rparr>"
    using assms by (simp add: calculate_sma_def close_column_get_close rolling_mean_finite)
  have cnt: "length (filter (\<lambda>v. v \<noteq> NaN) ?vs) = (length xs + 1) - ?w"
    using assms(2) by (simp add: filter_map comp_def count_full_windows)
  have nan: "?vs ! i = NaN" if "i < length xs" "i + 1 < ?w" for i
    using that by simp
  have val: "?vs ! i = Fin ((\<Sum>j = i + 1 - ?w..i. xs ! j) / real ?w)"
    if "i < length xs" "?w \<le> i + 1" for i
    using that assms(2) by (simp add: mean_def sum_list_window_at length_window_at min_def)
  from sma cnt nan val show ?thesis by simp
qed

theorem calculate_sma_trailing_mean_witness:
  "close_column \<lparr>df_index = [1::nat, 2, 3, 4, 5], df_columns = Index [''Close''],
                 df_cells = [[1::real, 2, 3, 4, 5]]\<rparr> = Some [1, 2, 3, 4, 5]
   \<and> (1::int) \<le> 3
   \<and> calculate_sma \<lparr>df_index = [1::nat, 2, 3, 4, 5], df_columns = Index [''Close''],
                     df_cells = [[1::real, 2, 3, 4, 5]]\<rparr> 3
       = Inr \<lparr>s_index = [1, 2, 3, 4, 5], s_values = [NaN, NaN, Fin 2, Fin 3, Fin 4]\<rparr>"
  using calculate_sma_trailing_mean [of
      "\<lparr>df_index = [1::nat, 2, 3, 4, 5], df_columns = Index [''Close''],
        df_cells = [[1::real, 2, 3, 4, 5]]\<rparr>" "[1, 2, 3, 4, 5]" 3]
  by (simp add: calculate_sma_def get_close_def close_column_def get_level_values0_def
      rolling_mean_def window_at_def observations_def mean_def upt_rec)

lemma ewm_loop_step_finite:
  "ewm_loop a (Fin y) 1 (Fin x # rest) =
     Fin ((1 - a) * y + a * x) # ewm_loop a (Fin ((1 - a) * y + a * x)) 1 rest"
proof (cases "y = x")
  case True
  have "(1 - a) * x + a * x = x" by (simp add: algebra_simps)
  with True show ?thesis by simp
next
  case False
  then show ?thesis by simp
qed

lemma ewm_loop_finite:
  "ewm_loop a (Fin y) 1 (map Fin xs) = map Fin (ema_run a y xs)"
proof (induction xs arbitrary: y)
  case Nil
  show ?case by simp
next
  case (Cons x xs)
  show ?case
    using Cons.IH [of "(1 - a) * y + a * x"]
    by (simp only: list.map ewm_loop_step_finite ema_run.simps)
qed


lemma ewm_mean_finite:
  "1 \<le> w \<Longrightarrow> ewm_mean w (map Fin xs) = Inr (map Fin (ema_list (2 / (real_of_int w + 1)) xs))"
  by (cases xs) (simp_all add: ewm_mean_def ema_list_def ewm_loop_finite del: ewm_loop.simps)

lemma length_ema_run: "length (ema_run a y xs) = length xs"
  by (induction xs arbitrary: y) simp_all

lemma length_ema_list: "length (ema_list a xs) = length xs"
  by (cases xs) (simp_all add: ema_list_def length_ema_run)

lemma ema_run_step:
  "t < length xs \<Longrightarrow>
     ema_run a y xs ! t = (1 - a) * ((y # ema_run a y xs) ! t) + a * xs ! t"
proof (induction xs arbitrary: y t)
  case Nil
  then show ?case by simp
next
  case (Cons x xs)
  show ?case
  proof (cases t)
    case 0
    then show ?thesis by simp
  next
    case (Suc t')
    with Cons.prems have "t' < length xs" by simp
    from Cons.IH [OF this, of "(1 - a) * y + a * x"] Suc show ?thesis by simp
  qed
qed

lemma ema_list_rec: "t < length xs \<Longrightarrow> ema_list a xs ! t = ema_rec a xs t"
proof (induction t)
  case 0
  then show ?case by (cases xs) (simp_all add: ema_list_def)
next
  case (Suc t)
  then obtain x rest where xs: "xs = x # rest" by (cases xs) auto
  from Suc have ih: "ema_list a xs ! t = ema_rec a xs t" by simp
  have "t < length rest" using Suc.prems xs by simp
  from ema_run_step [OF this, of a x]
  have "ema_list a xs ! Suc t = (1 - a) * (ema_list a xs ! t) + a * xs ! Suc t"
    using xs by (simp add: ema_list_def)
  with ih show ?case by simp
qed

lemma ema_rec_take: "t < n \<Longrightarrow> ema_rec a (take n xs) t = ema_rec a xs t"
proof (induction t)
  case 0
  then show ?case by simp
next
  case (Suc t)
  then have "ema_rec a (take n xs) t = ema_rec a xs t" by simp
  with Suc.prems show ?case by simp
qed

lemma ema_rec_causal:
  assumes "take (Suc t) xs' = take (Suc t) xs"
  shows "ema_rec a xs' t = ema_rec a xs t"
proof -
  have "ema_rec a xs' t = ema_rec a (take (Suc t) xs') t"
    by (simp add: ema_rec_take)
  also have "\<dots> = ema_rec a (take (Suc t) xs) t"
    using assms by simp
  also have "\<dots> = ema_rec a xs t"
    by (simp add: ema_rec_take)
  finally show ?thesis .
qed


lemma calculate_ema_finite:
  assumes "close_column data = Some xs" and "1 \<le> window"
  shows "calculate_ema data window =
           Inr \<lparr>s_index = df_index data,
                s_values = map Fin (ema_list (2 / (real_of_int window + 1)) xs)\<rparr>"
  using assms by (simp add: calculate_ema_def get_close_def ewm_mean_finite)

text \<open>
  C2: on a table whose close column \<open>xs\<close> is not empty, and for a window of at least 1,
  \<open>calculate_ema\<close> returns a series on the index of the table whose first value is the
  first close value and whose value at \<open>t\<close> is given by the recurrence with
  \<open>a = 2 / (w + 1)\<close>; the value at \<open>t\<close> is the same for any other table whose close
  values agree up to \<open>t\<close>.
\<close>

theorem calculate_ema_recurrence:
  assumes "close_column data = Some xs" and "xs \<noteq> []" and "1 \<le> window"
  shows "\<exists>s. calculate_ema data window = Inr s
           \<and> s_index s = df_index data
           \<and> length (s_values s) = length xs
           \<and> s_values s ! 0 = Fin (xs ! 0)
           \<and> (\<forall>t<length xs. s_values s ! t = Fin (ema_rec (2 / (real_of_int window + 1)) xs t))
           \<and> (\<forall>data' xs' t. close_column data' = Some xs' \<longrightarrow> t < length xs \<longrightarrow> t < length xs'
                  \<longrightarrow> take (Suc t) xs' = take (Suc t) xs
                  \<longrightarrow> (\<exists>s'. calculate_ema (data' :: ('i, real) dataframe) window = Inr s'
                         \<and> s_values s' ! t = s_values s ! t))"
proof -
  let ?a = "2 / (real_of_int window + 1)"
  let ?s = "\<lparr>s_index = df_index data, s_values = map Fin (ema_list ?a xs)\<rparr>"
  have 1: "calculate_ema data window = Inr ?s"
    using assms by (simp add: calculate_ema_finite)
  have 2: "s_values ?s ! t = Fin (ema_rec ?a xs t)" if "t < length xs" for t
    using that by (simp add: length_ema_list ema_list_rec)
  have 3: "s_values ?s ! 0 = Fin (xs ! 0)"
    using assms(2) 2 [of 0] by simp
  have 4: "\<exists>s'. calculate_ema data' window = Inr s' \<and> s_values s' ! t = s_values ?s ! t"
    if c: "close_column data' = Some xs'" and t: "t < length xs" "t < length xs'"
      and tk: "take (Suc t) xs' = take (Suc t) xs"
    for data' :: "('i, real) dataframe" and xs' t
  proof -
    have "ema_list ?a xs' ! t = ema_list ?a xs ! t"
      using t ema_rec_causal [OF tk, of ?a] by (simp add: ema_list_rec)
    then show ?thesis
      using t by (simp add: calculate_ema_finite [OF c assms(3)] length_ema_list)
  qed
  have 5: "length (s_values ?s) = length xs" "s_index ?s = df_index data"
    by (simp_all add: length_ema_list)
  from 1 2 3 4 5 show ?thesis by blast
qed

theorem calculate_ema_recurrence_witness:
  "close_column \<lparr>df_index = [1::nat, 2, 3], df_columns = Index [''Close''],
                 df_cells = [[1::real, 2, 3]]\<rparr> = Some [1, 2, 3]
   \<and> [1::real, 2, 3] \<noteq> [] \<and> (1::int) \<le> 2
   \<and> calculate_ema \<lparr>df_index = [1::nat, 2, 3], df_columns = Index [''Close''],
                     df_cells = [[1::real, 2, 3]]\<rparr> 2
       = Inr \<lparr>s_index = [1, 2, 3], s_values = [Fin 1, Fin (5 / 3), Fin (23 / 9)]\<rparr>"
  using calculate_ema_recurrence [of
      "\<lparr>df_index = [1::nat, 2, 3], df_columns = Index [''Close''],
        df_cells = [[1::real, 2, 3]]\<rparr>" "[1, 2, 3]" 2]
  by (simp add: calculate_ema_def get_close_def close_column_def get_level_values0_def
      ewm_mean_def)

section \<open>Rounding to binary64: proofs\<close>

lemma round_even_error: "\<bar>of_int (round_even y) - y\<bar> \<le> 1 / 2"
  unfolding round_even_def Let_def by (auto simp: abs_if) linarith+

lemma round_even_interior:
  assumes "of_int n - 1 / 2 < y" and "y < of_int n + 1 / 2"
  shows "round_even y = n"
proof -
  have "\<bar>of_int (round_even y) - y\<bar> \<le> 1 / 2" by (rule round_even_error)
  with assms have "\<bar>(of_int (round_even y) :: real) - of_int n\<bar> < 1" by linarith
  then have "\<bar>round_even y - n\<bar> < 1"
    by (metis of_int_diff of_int_abs of_int_less_1_iff)
  then show ?thesis by linarith
qed

lemma round_even_of_int: "round_even (of_int n) = n"
  by (rule round_even_interior) simp_all

lemma round_even_numeral [simp]:
  "round_even (numeral k) = numeral k" "round_even (- numeral k) = - numeral k"
  "round_even 0 = 0" "round_even 1 = 1"
  using round_even_of_int [of "numeral k"] round_even_of_int [of "- numeral k"]
    round_even_of_int [of 0] round_even_of_int [of 1] by simp_all

lemma float64_ulp_eval:
  assumes "2 powr of_int e \<le> \<bar>x\<bar>" and "\<bar>x\<bar> < 2 powr of_int (e + 1)" and "- 1022 \<le> e"
  shows "float64_ulp x = 2 powr of_int (e - 52)"
proof -
  have "0 < \<bar>x\<bar>" using assms(1) by (smt (verit) powr_gt_zero)
  then have "\<lfloor>log 2 \<bar>x\<bar>\<rfloor> = e"
    using assms(1,2) by (simp add: floor_log_eq_powr_iff add.commute)
  then show ?thesis using assms(3) by (simp add: float64_ulp_def max_def)
qed

lemma float64_ulp_pos: "0 < float64_ulp x"
  by (simp add: float64_ulp_def)

lemma float64_ulp_le:
  assumes "x \<noteq> 0"
  shows "float64_ulp x \<le> \<bar>x\<bar> / 2 ^ 52 + 1 / 2 ^ 1074"
proof (cases "- 1022 \<le> \<lfloor>log 2 \<bar>x\<bar>\<rfloor>")
  case True
  then have "max \<lfloor>log 2 \<bar>x\<bar>\<rfloor> (- 1022) = \<lfloor>log 2 \<bar>x\<bar>\<rfloor>"
    by (rule max_absorb1)
  then have "float64_ulp x = 2 powr (of_int \<lfloor>log 2 \<bar>x\<bar>\<rfloor> - 52)"
    by (simp add: float64_ulp_def)
  also have "\<dots> \<le> 2 powr (log 2 \<bar>x\<bar> - 52)"
    by (rule powr_mono) simp_all
  also have "\<dots> = \<bar>x\<bar> / 2 ^ 52"
    using assms by (simp add: powr_diff)
  finally show ?thesis by (smt (verit) divide_pos_pos zero_less_power)
next
  case False
  then have "max \<lfloor>log 2 \<bar>x\<bar>\<rfloor> (- 1022) = - 1022"
    by (intro max_absorb2) linarith
  then have "float64_ulp x = 2 powr (- 1074)"
    by (simp add: float64_ulp_def)
  also have "\<dots> = 1 / 2 ^ 1074" by (simp add: powr_neg_numeral)
  finally show ?thesis by simp
qed

lemma round64_error:
  assumes "round64 x = Fin r"
  shows "\<bar>r - x\<bar> \<le> float64_ulp x / 2"
proof (cases "x = 0")
  case True
  with assms show ?thesis using float64_ulp_pos [of 0] by (simp add: round64_def)
next
  case False
  let ?u = "float64_ulp x"
  have u: "0 < ?u" by (rule float64_ulp_pos)
  from assms False have r: "r = of_int (round_even (x / ?u)) * ?u"
    by (simp add: round64_def Let_def split: if_splits)
  have "\<bar>of_int (round_even (x / ?u)) - x / ?u\<bar> \<le> 1 / 2" by (rule round_even_error)
  then have "\<bar>of_int (round_even (x / ?u)) - x / ?u\<bar> * ?u \<le> 1 / 2 * ?u"
    using u by (simp add: mult_right_mono)
  moreover have "(of_int (round_even (x / ?u)) - x / ?u) * ?u = r - x"
    using u by (simp add: r left_diff_distrib)
  then have "\<bar>of_int (round_even (x / ?u)) - x / ?u\<bar> * ?u = \<bar>r - x\<bar>"
    using u by (metis abs_mult abs_of_pos)
  ultimately show ?thesis by simp
qed

text \<open>
  A rounded result is within half a unit in the last place of the exact one: a relative
  error of at most \<open>2 ^ -53\<close>, or \<open>2 ^ -1075\<close> below the normal range.
\<close>

lemma round64_close:
  assumes "round64 x = Fin r"
  shows "\<bar>r - x\<bar> \<le> \<bar>x\<bar> / 2 ^ 53 + 1 / 2 ^ 1075"
proof (cases "x = 0")
  case True
  with assms show ?thesis by (simp add: round64_def)
next
  case False
  have "\<bar>r - x\<bar> \<le> float64_ulp x / 2" using assms by (rule round64_error)
  also have "\<dots> \<le> (\<bar>x\<bar> / 2 ^ 52 + 1 / 2 ^ 1074) / 2"
    using float64_ulp_le [OF False] by simp
  also have "\<dots> = \<bar>x\<bar> / 2 ^ 53 + 1 / 2 ^ 1075"
    by (simp add: add_divide_distrib)
  finally show ?thesis .
qed

text \<open>How a rounding is computed once the binary exponent \<open>e\<close> of the number is known.\<close>

lemma round64_eval:
  assumes "2 powr of_int e \<le> \<bar>x\<bar>" and "\<bar>x\<bar> < 2 powr of_int (e + 1)" and "- 1022 \<le> e"
    and "round_even (x * 2 powr of_int (52 - e)) = n"
    and "r = of_int n / 2 powr of_int (52 - e)" and "\<bar>r\<bar> < 2 ^ 1024"
  shows "round64 x = Fin r"
proof -
  define p where "p = (2::real) powr of_int (52 - e)"
  have "float64_ulp x = 2 powr of_int (e - 52)"
    using assms(1-3) by (rule float64_ulp_eval)
  also have "of_int (e - 52) = - (of_int (52 - e) :: real)" by simp
  finally have u: "float64_ulp x = 1 / p"
    unfolding p_def by (simp only: powr_minus_divide)
  have x0: "x \<noteq> 0" using assms(1) by (smt (verit) powr_gt_zero)
  have r: "of_int (round_even (x / float64_ulp x)) * float64_ulp x = r"
    using assms(4,5) by (simp add: u p_def)
  show ?thesis
    unfolding round64_def Let_def r using x0 assms(6) by simp
qed

lemma round64_0 [simp]: "round64 0 = Fin 0"
  by (simp add: round64_def)

lemma fgt_NaN [simp]: "fgt v NaN = False"
  by (cases v) simp_all

lemma fadd_NaN [simp]: "fadd v NaN = NaN"
  by (cases v) simp_all

lemma fmul_NaN [simp]: "fmul v NaN = NaN"
  by (cases v) simp_all

section \<open>Bollinger bands: proofs\<close>

lemma rolling_std_finite:
  assumes "0 \<le> window"
  shows "rolling_std window (map Fin xs) =
           Inr (map (\<lambda>i. if nat window \<le> Suc i \<and> 1 < window
                          then Fin (sample_std (window_at (nat window) i xs)) else NaN)
                    [0..<length xs])"
proof -
  have "(nat window \<le> length (window_at (nat window) i xs) \<and>
           1 < length (window_at (nat window) i xs))
        = (nat window \<le> Suc i \<and> 1 < window)" if "i < length xs" for i
    using that assms by (auto simp: length_window_at)
  then show ?thesis
    using assms
    by (simp add: rolling_std_def window_at_map observations_map_Fin Let_def)
qed

lemma calculate_sma_finite:
  assumes "close_column data = Some xs" and "0 \<le> window"
  shows "calculate_sma data window =
           Inr \<lparr>s_index = df_index data,
                s_values = map (\<lambda>i. if nat window \<le> Suc i \<and> 0 < window
                                     then Fin (mean (window_at (nat window) i xs)) else NaN)
                               [0..<length xs]\<rparr>"
  using assms by (simp add: calculate_sma_def close_column_get_close rolling_mean_finite)

text \<open>
  Where both bands are defined they are the roundings of \<open>m + off\<close> and \<open>m - off\<close>
  for the middle value \<open>m\<close> and one offset \<open>off\<close>, the rounded product of the standard
  deviation and \<open>num_std\<close>.
\<close>

lemma band_values:
  assumes "add64 (Fin m) (mul64 s (Fin k)) = Fin u"
    and "sub64 (Fin m) (mul64 s (Fin k)) = Fin l"
  shows "\<exists>sd off. s = Fin sd \<and> round64 (sd * k) = Fin off
           \<and> round64 (m + off) = Fin u \<and> round64 (m - off) = Fin l"
proof (cases s)
  case s: (Fin sd)
  show ?thesis
  proof (cases "round64 (sd * k)")
    case (Fin off)
    with assms s show ?thesis by (simp add: add64_def sub64_def mul64_def fsub_def)
  qed (use assms s in \<open>simp_all add: add64_def mul64_def\<close>)
qed (use assms in \<open>simp_all add: add64_def mul64_def inf_of_sign_def split: if_splits\<close>)

lemma band_asymmetry_bound:
  assumes "round64 (m + off) = Fin u" and "round64 (m - off) = Fin l"
  shows "\<bar>(u - m) - (m - l)\<bar> \<le> (\<bar>m + off\<bar> + \<bar>m - off\<bar>) / 2 ^ 53 + 1 / 2 ^ 1074"
proof -
  have u: "\<bar>u - (m + off)\<bar> \<le> \<bar>m + off\<bar> / 2 ^ 53 + 1 / 2 ^ 1075"
    using assms(1) by (rule round64_close)
  have l: "\<bar>l - (m - off)\<bar> \<le> \<bar>m - off\<bar> / 2 ^ 53 + 1 / 2 ^ 1075"
    using assms(2) by (rule round64_close)
  have "(u - m) - (m - l) = (u - (m + off)) + (l - (m - off))" by simp
  then have "\<bar>(u - m) - (m - l)\<bar> \<le> \<bar>u - (m + off)\<bar> + \<bar>l - (m - off)\<bar>"
    by (simp only: abs_triangle_ineq)
  also have "\<dots> \<le> (\<bar>m + off\<bar> / 2 ^ 53 + 1 / 2 ^ 1075) + (\<bar>m - off\<bar> / 2 ^ 53 + 1 / 2 ^ 1075)"
    using u l by (rule add_mono)
  also have "\<dots> = (\<bar>m + off\<bar> + \<bar>m - off\<bar>) / 2 ^ 53 + 1 / 2 ^ 1074"
    by (simp add: add_divide_distrib)
  finally show ?thesis .
qed

text \<open>The roundings met on the closes 1, 3 with window 2 and on 1, 3, 5 with window 3.\<close>

lemma sqrt2_bounds:
  "12738103345051545 / 2 ^ 53 < sqrt 2" "sqrt 2 < 12738103345051547 / 2 ^ 53"
proof -
  show "12738103345051545 / 2 ^ 53 < sqrt 2"
    by (rule real_less_rsqrt) (simp add: power2_eq_square)
  show "sqrt 2 < 12738103345051547 / 2 ^ 53"
    by (rule real_less_lsqrt) (simp_all add: power2_eq_square)
qed

lemma round64_sqrt2_twice: "round64 (sqrt 2 * 2) = Fin (6369051672525773 / 2 ^ 51)"
proof (rule round64_eval [where e = 1 and n = 6369051672525773])
  show "2 powr real_of_int 1 \<le> \<bar>sqrt 2 * 2\<bar>" using sqrt2_bounds(1) by simp
  show "\<bar>sqrt 2 * 2\<bar> < 2 powr real_of_int (1 + 1)" using sqrt2_bounds(2) by simp
  show "round_even (sqrt 2 * 2 * 2 powr real_of_int (52 - 1)) = 6369051672525773"
    by (rule round_even_interior) (use sqrt2_bounds in simp_all)
qed simp_all

lemma round64_upper_1_3:
  "round64 (2 + 6369051672525773 / 2 ^ 51) = Fin (5436325649948134 / 2 ^ 50)"
  by (rule round64_eval [where e = 2 and n = 5436325649948134])
    (simp_all add: round_even_def Let_def)

lemma round64_lower_1_3:
  "round64 (2 + - (6369051672525773 / 2 ^ 51)) = Fin (- (1865452045155277 / 2 ^ 51))"
  by (rule round64_eval [where e = "- 1" and n = "- 7461808180621108"])
    (simp_all add: powr_neg_numeral)

lemma round64_4: "round64 4 = Fin 4"
  by (rule round64_eval [where e = 2 and n = "2 ^ 52"]) simp_all

lemma round64_7: "round64 7 = Fin 7"
  by (rule round64_eval [where e = 2 and n = "7 * 2 ^ 50"]) simp_all

lemma round64_minus_1: "round64 (- 1) = Fin (- 1)"
  by (rule round64_eval [where e = 0 and n = "- (2 ^ 52)"]) simp_all

text \<open>
  C3 as it is written fails: the two bands are two separately rounded operations. On the
  closes 1, 3 with window 2 and two standard deviations the offset is
  \<open>2.8284271247461903\<close>; the upper band \<open>2 + 2.8284271247461903\<close> lies halfway between
  two binary64 numbers and is rounded down to \<open>4.82842712474619\<close>, the lower band
  \<open>2 - 2.8284271247461903\<close> is exact, so the upper band is nearer to the middle than the
  lower band is.
\<close>

theorem bollinger_symmetry_counterexample:
  "calculate_bollinger_bands \<lparr>df_index = [1::nat, 2], df_columns = Index [''Close''],
                               df_cells = [[1::real, 3]]\<rparr> 2 2
     = Inr (\<lparr>s_index = [1, 2], s_values = [NaN, Fin (5436325649948134 / 2 ^ 50)]\<rparr>,
            \<lparr>s_index = [1, 2], s_values = [NaN, Fin 2]\<rparr>,
            \<lparr>s_index = [1, 2], s_values = [NaN, Fin (- (1865452045155277 / 2 ^ 51))]\<rparr>)
   \<and> (5436325649948134 / 2 ^ 50 - 2 :: real) \<noteq> 2 - (- (1865452045155277 / 2 ^ 51))"
proof -
  let ?d = "\<lparr>df_index = [1::nat, 2], df_columns = Index [''Close''],
             df_cells = [[1::real, 3]]\<rparr>"
  define off :: real where "off = 6369051672525773 / 2 ^ 51"
  define up :: real where "up = 5436325649948134 / 2 ^ 50"
  define lo :: real where "lo = - (1865452045155277 / 2 ^ 51)"
  have close: "get_close ?d = Inr \<lparr>s_index = [1, 2], s_values = [Fin 1, Fin 3]\<rparr>"
    by (simp add: get_close_def close_column_def get_level_values0_def)
  have sma: "calculate_sma ?d 2 = Inr \<lparr>s_index = [1, 2], s_values = [NaN, Fin 2]\<rparr>"
    by (simp add: calculate_sma_def get_close_def close_column_def get_level_values0_def
        rolling_mean_def window_at_def observations_def mean_def upt_rec)
  have std: "rolling_std 2 [Fin 1, Fin 3] = Inr [NaN, Fin (sqrt 2)]"
    by (simp add: rolling_std_def sample_std_def window_at_def observations_def mean_def
        upt_rec)
  have nan: "mul64 NaN (Fin 2) = NaN" "add64 NaN NaN = NaN" "sub64 NaN NaN = NaN"
    by (simp_all add: mul64_def add64_def sub64_def fsub_def)
  have o: "mul64 (Fin (sqrt 2)) (Fin 2) = Fin off"
    unfolding mul64_def fmul.simps fround.simps off_def by (rule round64_sqrt2_twice)
  have u: "add64 (Fin 2) (Fin off) = Fin up"
    unfolding add64_def fadd.simps fround.simps off_def up_def by (rule round64_upper_1_3)
  have l: "sub64 (Fin 2) (Fin off) = Fin lo"
    unfolding sub64_def fsub_def fneg.simps fadd.simps fround.simps off_def lo_def
    by (rule round64_lower_1_3)
  have "calculate_bollinger_bands ?d 2 2
     = Inr (\<lparr>s_index = [1, 2], s_values = [NaN, Fin up]\<rparr>,
            \<lparr>s_index = [1, 2], s_values = [NaN, Fin 2]\<rparr>,
            \<lparr>s_index = [1, 2], s_values = [NaN, Fin lo]\<rparr>)"
    unfolding calculate_bollinger_bands_def sma close by (simp add: std nan o u l)
  then show ?thesis
    unfolding up_def lo_def by simp
qed

text \<open>
  C3, as the code has it: on a table with a close column and for a window the library
  accepts, \<open>calculate_bollinger_bands\<close> returns three series on the same index and the
  middle one is the result of \<open>calculate_sma\<close> for the same window. Wherever the three
  are defined, the upper and the lower band are the binary64 roundings of
  \<open>middle + off\<close> and \<open>middle - off\<close> for one and the same offset \<open>off\<close>, the rounded
  product of the trailing sample standard deviation and \<open>num_std\<close>; so the bands are
  symmetric about the middle up to the rounding of these two operations: the two
  distances differ by at most \<open>(\<bar>middle + off\<bar> + \<bar>middle - off\<bar>) / 2 ^ 53 + 2 ^ -1074\<close>.
\<close>

theorem bollinger_middle_is_sma_and_bands_rounded:
  assumes "close_column data = Some xs" and "0 \<le> window"
  shows "\<exists>upper middle lower.
           calculate_bollinger_bands data window num_std = Inr (upper, middle, lower)
           \<and> calculate_sma data window = Inr middle
           \<and> length (s_values upper) = length xs
           \<and> length (s_values middle) = length xs
           \<and> length (s_values lower) = length xs
           \<and> (\<forall>i<length xs. \<forall>u m l.
                 s_values upper ! i = Fin u \<and> s_values middle ! i = Fin m
                   \<and> s_values lower ! i = Fin l
                 \<longrightarrow> (\<exists>off.
                        round64 (sample_std (window_at (nat window) i xs) * num_std) = Fin off
                        \<and> round64 (m + off) = Fin u
                        \<and> round64 (m - off) = Fin l
                        \<and> \<bar>(u - m) - (m - l)\<bar>
                            \<le> (\<bar>m + off\<bar> + \<bar>m - off\<bar>) / 2 ^ 53 + 1 / 2 ^ 1074))"
proof -
  let ?w = "nat window"
  let ?mid = "map (\<lambda>i. if ?w \<le> Suc i \<and> 0 < window
                        then Fin (mean (window_at ?w i xs)) else NaN) [0..<length xs]"
  let ?std = "map (\<lambda>i. if ?w \<le> Suc i \<and> 1 < window
                        then Fin (sample_std (window_at ?w i xs)) else NaN) [0..<length xs]"
  let ?off = "map (\<lambda>s. mul64 s (Fin num_std)) ?std"
  let ?sma = "\<lparr>s_index = df_index data, s_values = ?mid\<rparr>"
  let ?up = "?sma\<lparr>s_values := map2 add64 ?mid ?off\<rparr>"
  let ?lo = "?sma\<lparr>s_values := map2 sub64 ?mid ?off\<rparr>"
  have sma: "calculate_sma data window = Inr ?sma"
    using assms by (rule calculate_sma_finite)
  have bb: "calculate_bollinger_bands data window num_std = Inr (?up, ?sma, ?lo)"
    using assms
    by (simp add: calculate_bollinger_bands_def sma close_column_get_close
        rolling_std_finite Let_def)
  have vals: "\<exists>off. round64 (sample_std (window_at ?w i xs) * num_std) = Fin off
                \<and> round64 (m + off) = Fin u \<and> round64 (m - off) = Fin l
                \<and> \<bar>(u - m) - (m - l)\<bar> \<le> (\<bar>m + off\<bar> + \<bar>m - off\<bar>) / 2 ^ 53 + 1 / 2 ^ 1074"
    if "i < length xs" "s_values ?up ! i = Fin u" "s_values ?sma ! i = Fin m"
       "s_values ?lo ! i = Fin l" for i u m l
  proof -
    define s where "s = (if ?w \<le> Suc i \<and> 1 < window
                         then Fin (sample_std (window_at ?w i xs)) else NaN)"
    from that have "add64 (Fin m) (mul64 s (Fin num_std)) = Fin u"
      and "sub64 (Fin m) (mul64 s (Fin num_std)) = Fin l"
      by (simp_all add: s_def del: upt_Suc)
    then obtain sd off where s: "s = Fin sd" and off: "round64 (sd * num_std) = Fin off"
      and u: "round64 (m + off) = Fin u" and l: "round64 (m - off) = Fin l"
      using band_values by blast
    from s have "sd = sample_std (window_at ?w i xs)"
      by (simp add: s_def split: if_splits)
    with off u l band_asymmetry_bound [OF u l] show ?thesis by blast
  qed
  have len: "length (s_values ?up) = length xs" "length (s_values ?sma) = length xs"
    "length (s_values ?lo) = length xs"
    by simp_all
  from sma bb vals len show ?thesis by blast
qed

theorem bollinger_middle_is_sma_and_bands_rounded_witness:
  "close_column \<lparr>df_index = [1::nat, 2, 3], df_columns = Index [''Close''],
                 df_cells = [[1::real, 3, 5]]\<rparr> = Some [1, 3, 5]
   \<and> (0::int) \<le> 3
   \<and> calculate_bollinger_bands \<lparr>df_index = [1::nat, 2, 3], df_columns = Index [''Close''],
                                 df_cells = [[1::real, 3, 5]]\<rparr> 3 2
       = Inr (\<lparr>s_index = [1, 2, 3], s_values = [NaN, NaN, Fin 7]\<rparr>,
              \<lparr>s_index = [1, 2, 3], s_values = [NaN, NaN, Fin 3]\<rparr>,
              \<lparr>s_index = [1, 2, 3], s_values = [NaN, NaN, Fin (- 1)]\<rparr>)
   \<and> calculate_sma \<lparr>df_index = [1::nat, 2, 3], df_columns = Index [''Close''],
                     df_cells = [[1::real, 3, 5]]\<rparr> 3
       = Inr \<lparr>s_index = [1, 2, 3], s_values = [NaN, NaN, Fin 3]\<rparr>"
  using bollinger_middle_is_sma_and_bands_rounded [of
      "\<lparr>df_index = [1::nat, 2, 3], df_columns = Index [''Close''],
        df_cells = [[1::real, 3, 5]]\<rparr>" "[1, 3, 5]" 3 2]
  by (simp add: calculate_bollinger_bands_def calculate_sma_def get_close_def close_column_def
      get_level_values0_def rolling_mean_def rolling_std_def sample_std_def window_at_def
      observations_def mean_def add64_def sub64_def mul64_def fsub_def upt_rec
      round64_4 round64_7 round64_minus_1)

section \<open>Relative strength index: proofs\<close>

lemma gain_zip:
  "where_cond (\<lambda>d. fgt d (Fin 0)) (Fin 0) (map2 fsub (map Fin as) (map Fin bs))
     = map Fin (map2 (\<lambda>b a. if 0 < b - a then b - a else 0) as bs)"
proof (induction as arbitrary: bs)
  case Nil
  show ?case by (simp add: where_cond_def)
next
  case (Cons a as)
  then show ?case by (cases bs) (simp_all add: where_cond_def fsub_def)
qed

lemma loss_zip:
  "map fneg (where_cond (\<lambda>d. flt d (Fin 0)) (Fin 0) (map2 fsub (map Fin as) (map Fin bs)))
     = map Fin (map2 (\<lambda>b a. if b - a < 0 then a - b else 0) as bs)"
proof (induction as arbitrary: bs)
  case Nil
  show ?case by (simp add: where_cond_def)
next
  case (Cons a as)
  then show ?case by (cases bs) (simp_all add: where_cond_def fsub_def flt_def)
qed

lemma gain_raw_finite:
  "where_cond (\<lambda>d. fgt d (Fin 0)) (Fin 0) (diff (map Fin xs)) = map Fin (gains xs)"
proof (cases xs)
  case Nil
  then show ?thesis by (simp add: where_cond_def diff_def gains_def)
next
  case (Cons x rest)
  with gain_zip [of rest "x # rest"] show ?thesis
    by (simp add: where_cond_def diff_def gains_def)
qed

lemma loss_raw_finite:
  "map fneg (where_cond (\<lambda>d. flt d (Fin 0)) (Fin 0) (diff (map Fin xs))) = map Fin (losses xs)"
proof (cases xs)
  case Nil
  then show ?thesis by (simp add: where_cond_def diff_def losses_def)
next
  case (Cons x rest)
  with loss_zip [of rest "x # rest"] show ?thesis
    by (simp add: where_cond_def diff_def losses_def flt_def)
qed

lemma length_gains: "length (gains xs) = length xs"
  by (cases xs) (simp_all add: gains_def)

lemma length_losses: "length (losses xs) = length xs"
  by (cases xs) (simp_all add: losses_def)

lemma gains_nonneg: "g \<in> set (gains xs) \<Longrightarrow> 0 \<le> g"
  by (cases xs) (auto simp: gains_def)

lemma losses_nonneg: "l \<in> set (losses xs) \<Longrightarrow> 0 \<le> l"
  by (cases xs) (auto simp: losses_def)

lemma mean_nonneg: "(\<And>y. y \<in> set ys \<Longrightarrow> 0 \<le> y) \<Longrightarrow> 0 \<le> mean ys"
  by (simp add: mean_def sum_list_nonneg)

lemma set_window_at: "set (window_at w i xs) \<subseteq> set xs"
  unfolding window_at_def
  by (meson set_drop_subset set_take_subset subset_trans)

lemma avg_gain_nonneg: "0 \<le> mean (window_at w i (gains xs))"
  using set_window_at [of w i "gains xs"] by (intro mean_nonneg gains_nonneg) auto

lemma avg_loss_nonneg: "0 \<le> mean (window_at w i (losses xs))"
  using set_window_at [of w i "losses xs"] by (intro mean_nonneg losses_nonneg) auto

lemma rsi_gain_finite:
  "0 \<le> window \<Longrightarrow>
     rsi_gain (map Fin xs) window =
       Inr (map (\<lambda>i. if nat window \<le> Suc i \<and> 0 < window
                      then Fin (mean (window_at (nat window) i (gains xs))) else NaN)
                [0..<length xs])"
  by (simp add: rsi_gain_def gain_raw_finite rolling_mean_finite length_gains)

lemma rsi_loss_finite:
  "0 \<le> window \<Longrightarrow>
     rsi_loss (map Fin xs) window =
       Inr (map (\<lambda>i. if nat window \<le> Suc i \<and> 0 < window
                      then Fin (mean (window_at (nat window) i (losses xs))) else NaN)
                [0..<length xs])"
  by (simp add: rsi_loss_def loss_raw_finite rolling_mean_finite length_losses)

lemma rsi_loss_window: "rsi_loss vs window = Inr loss \<Longrightarrow> 0 \<le> window"
  by (auto simp: rsi_loss_def rolling_mean_def Let_def split: if_splits)

lemma rsi_value:
  assumes "0 \<le> a" and "0 \<le> b"
  shows "fsub (Fin 100) (fdiv (Fin 100) (fadd (Fin 1) (fdiv (Fin a) (Fin b))))
         = (if b = 0 then (if a = 0 then NaN else Fin 100)
            else Fin (100 - 100 / (1 + a / b)))"
proof (cases "b = 0")
  case True
  with assms show ?thesis by (auto simp: inf_of_sign_def fsub_def)
next
  case False
  with assms have "0 \<le> a / b" by simp
  then have "1 + a / b \<noteq> 0" by linarith
  with False show ?thesis by (simp add: fsub_def)
qed

lemma rsi_bound_aux:
  assumes "0 \<le> t"
  shows "0 \<le> 100 - 100 / (1 + t) \<and> 100 - 100 / (1 + t) \<le> (100::real)"
proof -
  from assms have pos: "0 < 1 + t" by linarith
  from assms have "100 \<le> 100 * (1 + t)" by simp
  with pos have "100 / (1 + t) \<le> 100"
    by (simp only: pos_divide_le_eq)
  moreover from pos have "0 \<le> 100 / (1 + t)" by simp
  ultimately show ?thesis by simp
qed

lemma rsi_bound:
  assumes "0 \<le> a" and "0 < b"
  shows "0 \<le> 100 - 100 / (1 + a / b) \<and> 100 - 100 / (1 + a / b) \<le> (100::real)"
  using assms by (intro rsi_bound_aux) simp

lemma map2_map_same: "map2 f (map g is) (map h is) = map (\<lambda>i. f (g i) (h i)) is"
  by (induction "is") simp_all

lemma calculate_rsi_finite:
  assumes "close_column data = Some xs" and "0 \<le> window"
  shows "calculate_rsi data window =
           Inr \<lparr>s_index = df_index data,
                s_values = map (\<lambda>i. if nat window \<le> Suc i \<and> 0 < window
                    then fsub (Fin 100) (fdiv (Fin 100) (fadd (Fin 1)
                           (fdiv (Fin (mean (window_at (nat window) i (gains xs))))
                                 (Fin (mean (window_at (nat window) i (losses xs)))))))
                    else NaN) [0..<length xs]\<rparr>"
proof -
  have "map (\<lambda>r. fsub (Fin 100) (fdiv (Fin 100) (fadd (Fin 1) r)))
          (map2 fdiv
            (map (\<lambda>i. if nat window \<le> Suc i \<and> 0 < window
                      then Fin (mean (window_at (nat window) i (gains xs))) else NaN)
                [0..<length xs])
            (map (\<lambda>i. if nat window \<le> Suc i \<and> 0 < window
                      then Fin (mean (window_at (nat window) i (losses xs))) else NaN)
                [0..<length xs]))
        = map (\<lambda>i. if nat window \<le> Suc i \<and> 0 < window
                    then fsub (Fin 100) (fdiv (Fin 100) (fadd (Fin 1)
                           (fdiv (Fin (mean (window_at (nat window) i (gains xs))))
                                 (Fin (mean (window_at (nat window) i (losses xs)))))))
                    else NaN) [0..<length xs]"
    unfolding map2_map_same map_map
    by (rule map_cong) (simp_all add: fsub_def)
  then show ?thesis
    using assms
    by (simp add: calculate_rsi_def close_column_get_close rsi_gain_finite rsi_loss_finite
        Let_def del: fdiv.simps fadd.simps)
qed


text \<open>
  C4: on a table with close column \<open>xs\<close>, when no point of the rolling average loss is
  zero, \<open>calculate_rsi\<close> returns a series on the index of the table in which every point
  is either undefined or a number between 0 and 100.
\<close>

theorem calculate_rsi_bounded:
  assumes "close_column data = Some xs"
    and "rsi_loss (map Fin xs) window = Inr loss"
    and "\<forall>i<length xs. loss ! i \<noteq> Fin 0"
  shows "\<exists>s. calculate_rsi data window = Inr s
           \<and> s_index s = df_index data
           \<and> length (s_values s) = length xs
           \<and> (\<forall>i<length xs. s_values s ! i = NaN
                  \<or> (\<exists>r. s_values s ! i = Fin r \<and> 0 \<le> r \<and> r \<le> 100))"
proof -
  let ?w = "nat window"
  let ?g = "\<lambda>i. mean (window_at ?w i (gains xs))"
  let ?l = "\<lambda>i. mean (window_at ?w i (losses xs))"
  let ?vs = "map (\<lambda>i. if ?w \<le> Suc i \<and> 0 < window
                then fsub (Fin 100) (fdiv (Fin 100) (fadd (Fin 1) (fdiv (Fin (?g i)) (Fin (?l i)))))
                else NaN) [0..<length xs]"
  have w: "0 \<le> window" using assms(2) by (rule rsi_loss_window)
  have rsi: "calculate_rsi data window = Inr \<lparr>s_index = df_index data, s_values = ?vs\<rparr>"
    using assms(1) w by (rule calculate_rsi_finite)
  have loss: "loss = map (\<lambda>i. if ?w \<le> Suc i \<and> 0 < window then Fin (?l i) else NaN)
                       [0..<length xs]"
    using assms(2) w by (simp add: rsi_loss_finite)
  have nth: "?vs ! i = (if ?w \<le> Suc i \<and> 0 < window
                then fsub (Fin 100) (fdiv (Fin 100) (fadd (Fin 1) (fdiv (Fin (?g i)) (Fin (?l i)))))
                else NaN)" if "i < length xs" for i
    using that by (simp del: fdiv.simps fadd.simps)
  have pt: "?vs ! i = NaN \<or> (\<exists>r. ?vs ! i = Fin r \<and> 0 \<le> r \<and> r \<le> 100)"
    if i: "i < length xs" for i
  proof (cases "?w \<le> Suc i \<and> 0 < window")
    case False
    with nth [OF i] have "?vs ! i = NaN" by (simp only: if_False)
    then show ?thesis by (rule disjI1)
  next
    case True
    with i assms(3) loss have "?l i \<noteq> 0" by auto
    with avg_loss_nonneg [of ?w i xs] have lpos: "0 < ?l i" by simp
    have g: "0 \<le> ?g i" by (rule avg_gain_nonneg)
    from lpos have "?vs ! i = Fin (100 - 100 / (1 + ?g i / ?l i))"
      using nth [OF i] True rsi_value [OF g avg_loss_nonneg [of ?w i xs]] by simp
    with rsi_bound [OF g lpos] show ?thesis by simp
  qed
  from rsi pt show ?thesis by simp
qed

theorem calculate_rsi_bounded_witness:
  "close_column \<lparr>df_index = [1::nat, 2, 3, 4], df_columns = Index [''Close''],
                 df_cells = [[2::real, 1, 2, 1]]\<rparr> = Some [2, 1, 2, 1]
   \<and> rsi_loss (map Fin [2, 1, 2, 1]) 2 = Inr [NaN, Fin (1 / 2), Fin (1 / 2), Fin (1 / 2)]
   \<and> calculate_rsi \<lparr>df_index = [1::nat, 2, 3, 4], df_columns = Index [''Close''],
                     df_cells = [[2::real, 1, 2, 1]]\<rparr> 2
       = Inr \<lparr>s_index = [1, 2, 3, 4], s_values = [NaN, Fin 0, Fin 50, Fin 50]\<rparr>"
  using calculate_rsi_bounded [of
      "\<lparr>df_index = [1::nat, 2, 3, 4], df_columns = Index [''Close''],
        df_cells = [[2::real, 1, 2, 1]]\<rparr>" "[2, 1, 2, 1]" 2
      "[NaN, Fin (1 / 2), Fin (1 / 2), Fin (1 / 2)]"]
  by (simp add: calculate_rsi_def rsi_gain_def rsi_loss_def diff_def where_cond_def flt_def
      fsub_def inf_of_sign_def get_close_def close_column_def get_level_values0_def
      rolling_mean_def window_at_def observations_def mean_def upt_rec)

text \<open>
  C5 as it is written fails: on the rising closes 1, 2, 3 with window 2 the average loss
  at the second and third point is zero and the value there is 100, not undefined.
\<close>

theorem calculate_rsi_zero_loss_counterexample:
  "rsi_loss (map Fin [1, 2, 3]) 2 = Inr [NaN, Fin 0, Fin 0]
   \<and> calculate_rsi \<lparr>df_index = [1::nat, 2, 3], df_columns = Index [''Close''],
                     df_cells = [[1::real, 2, 3]]\<rparr> 2
       = Inr \<lparr>s_index = [1, 2, 3], s_values = [NaN, Fin 100, Fin 100]\<rparr>"
  by (simp add: calculate_rsi_def rsi_gain_def rsi_loss_def diff_def where_cond_def flt_def
      fsub_def inf_of_sign_def get_close_def close_column_def get_level_values0_def
      rolling_mean_def window_at_def observations_def mean_def upt_rec)

text \<open>
  C5, as the code has it: at a point whose average loss is zero \<open>calculate_rsi\<close> does not
  raise; the average gain there is a number \<open>g \<ge> 0\<close>, and the value is undefined when
  \<open>g\<close> is zero too and 100 when \<open>g\<close> is positive.
\<close>

theorem calculate_rsi_zero_loss:
  assumes "close_column data = Some xs"
    and "rsi_loss (map Fin xs) window = Inr loss"
    and "i < length xs" and "loss ! i = Fin 0"
  shows "\<exists>s gain g. calculate_rsi data window = Inr s
           \<and> rsi_gain (map Fin xs) window = Inr gain
           \<and> gain ! i = Fin g \<and> 0 \<le> g
           \<and> s_values s ! i = (if g = 0 then NaN else Fin 100)"
proof -
  let ?w = "nat window"
  let ?g = "\<lambda>i. mean (window_at ?w i (gains xs))"
  let ?l = "\<lambda>i. mean (window_at ?w i (losses xs))"
  let ?vs = "map (\<lambda>i. if ?w \<le> Suc i \<and> 0 < window
                then fsub (Fin 100) (fdiv (Fin 100) (fadd (Fin 1) (fdiv (Fin (?g i)) (Fin (?l i)))))
                else NaN) [0..<length xs]"
  let ?gain = "map (\<lambda>i. if ?w \<le> Suc i \<and> 0 < window then Fin (?g i) else NaN) [0..<length xs]"
  have w: "0 \<le> window" using assms(2) by (rule rsi_loss_window)
  have rsi: "calculate_rsi data window = Inr \<lparr>s_index = df_index data, s_values = ?vs\<rparr>"
    using assms(1) w by (rule calculate_rsi_finite)
  have gain: "rsi_gain (map Fin xs) window = Inr ?gain"
    using w by (rule rsi_gain_finite)
  have loss: "loss = map (\<lambda>i. if ?w \<le> Suc i \<and> 0 < window then Fin (?l i) else NaN)
                       [0..<length xs]"
    using assms(2) w by (simp add: rsi_loss_finite)
  from loss assms(3,4) have full: "?w \<le> Suc i \<and> 0 < window" and l0: "?l i = 0"
    by (auto split: if_splits)
  have g: "0 \<le> ?g i" by (rule avg_gain_nonneg)
  have "?gain ! i = Fin (?g i)"
    using full assms(3) by simp
  moreover have "?vs ! i
      = fsub (Fin 100) (fdiv (Fin 100) (fadd (Fin 1) (fdiv (Fin (?g i)) (Fin (?l i)))))"
    using full assms(3) by (simp del: fdiv.simps fadd.simps)
  then have "?vs ! i = (if ?g i = 0 then NaN else Fin 100)"
    using l0 rsi_value [OF g, of "?l i"] by simp
  ultimately show ?thesis
    using rsi gain g by (intro exI [of _ "\<lparr>s_index = df_index data, s_values = ?vs\<rparr>"]
        exI [of _ ?gain] exI [of _ "?g i"]) simp
qed

theorem calculate_rsi_zero_loss_witness:
  "close_column \<lparr>df_index = [1::nat, 2, 3], df_columns = Index [''Close''],
                 df_cells = [[3::real, 3, 4]]\<rparr> = Some [3, 3, 4]
   \<and> rsi_loss (map Fin [3, 3, 4]) 2 = Inr [NaN, Fin 0, Fin 0]
   \<and> (2::nat) < length [3::real, 3, 4] \<and> [NaN, Fin 0, Fin 0] ! 2 = Fin 0
   \<and> rsi_gain (map Fin [3, 3, 4]) 2 = Inr [NaN, Fin 0, Fin (1 / 2)]
   \<and> calculate_rsi \<lparr>df_index = [1::nat, 2, 3], df_columns = Index [''Close''],
                     df_cells = [[3::real, 3, 4]]\<rparr> 2
       = Inr \<lparr>s_index = [1, 2, 3], s_values = [NaN, NaN, Fin 100]\<rparr>"
  using calculate_rsi_zero_loss [of
      "\<lparr>df_index = [1::nat, 2, 3], df_columns = Index [''Close''],
        df_cells = [[3::real, 3, 4]]\<rparr>" "[3, 3, 4]" 2 "[NaN, Fin 0, Fin 0]" 2]
  by (simp add: calculate_rsi_def rsi_gain_def rsi_loss_def diff_def where_cond_def flt_def
      fsub_def inf_of_sign_def get_close_def close_column_def get_level_values0_def
      rolling_mean_def window_at_def observations_def mean_def upt_rec)

section \<open>Short series: proofs\<close>

lemma short_window:
  assumes "int n < window"
  shows "map (\<lambda>i. if nat window \<le> Suc i \<and> c then f i else NaN) [0..<n] = replicate n NaN"
proof -
  have "map (\<lambda>i. if nat window \<le> Suc i \<and> c then f i else NaN) [0..<n]
        = map (\<lambda>i. NaN) [0..<n]"
    by (rule map_cong) (use assms in auto)
  then show ?thesis by (simp add: map_replicate_const)
qed

lemma map2_replicate: "map2 f (replicate n x) (replicate n y) = replicate n (f x y)"
  by (simp add: zip_replicate)

lemma map2_fsub_Fin: "map2 fsub (map Fin as) (map Fin bs) = map Fin (map2 (-) as bs)"
proof (induction as arbitrary: bs)
  case Nil
  show ?case by simp
next
  case (Cons a as)
  then show ?case by (cases bs) (simp_all add: fsub_def)
qed

lemma calculate_macd_finite:
  assumes "close_column data = Some xs" and "1 \<le> fast" and "1 \<le> slow" and "1 \<le> signal"
  shows "\<exists>macd sig. length macd = length xs \<and> length sig = length xs
    \<and> calculate_macd data fast slow signal =
        Inr (\<lparr>s_index = df_index data, s_values = map Fin macd\<rparr>,
             \<lparr>s_index = df_index data, s_values = map Fin sig\<rparr>,
             \<lparr>s_index = df_index data, s_values = map Fin (map2 (-) macd sig)\<rparr>)"
proof -
  define macd where "macd = map2 (-) (ema_list (2 / (real_of_int fast + 1)) xs)
                                      (ema_list (2 / (real_of_int slow + 1)) xs)"
  define sig where "sig = ema_list (2 / (real_of_int signal + 1)) macd"
  have f: "ewm_mean fast (map Fin xs) = Inr (map Fin (ema_list (2 / (real_of_int fast + 1)) xs))"
    using assms(2) by (rule ewm_mean_finite)
  have sl: "ewm_mean slow (map Fin xs) = Inr (map Fin (ema_list (2 / (real_of_int slow + 1)) xs))"
    using assms(3) by (rule ewm_mean_finite)
  have line: "map2 fsub (map Fin (ema_list (2 / (real_of_int fast + 1)) xs))
                        (map Fin (ema_list (2 / (real_of_int slow + 1)) xs)) = map Fin macd"
    unfolding macd_def by (rule map2_fsub_Fin)
  have sg: "ewm_mean signal (map Fin macd) = Inr (map Fin sig)"
    unfolding sig_def using assms(4) by (rule ewm_mean_finite)
  have hist: "map2 fsub (map Fin macd) (map Fin sig) = map Fin (map2 (-) macd sig)"
    by (rule map2_fsub_Fin)
  have "calculate_macd data fast slow signal =
        Inr (\<lparr>s_index = df_index data, s_values = map Fin macd\<rparr>,
             \<lparr>s_index = df_index data, s_values = map Fin sig\<rparr>,
             \<lparr>s_index = df_index data, s_values = map Fin (map2 (-) macd sig)\<rparr>)"
    unfolding calculate_macd_def close_column_get_close [OF assms(1)]
    by (simp only: sum.case series.simps f sl line Let_def sg hist)
  moreover have "length macd = length xs" "length sig = length xs"
    by (simp_all add: macd_def sig_def length_ema_list)
  ultimately show ?thesis by blast
qed

text \<open>
  C6, as the code has it: with a window longer than the series, \<open>calculate_sma\<close>,
  \<open>calculate_bollinger_bands\<close> and \<open>calculate_rsi\<close> return series on the index of the
  table that are undefined at every point; \<open>calculate_ema\<close> and \<open>calculate_macd\<close> (for
  any spans of at least 1) return series on the same index that are defined at every
  point. None of them raises.
\<close>

theorem short_history:
  assumes "close_column data = Some xs" and "int (length xs) < window"
  shows "calculate_sma data window
           = Inr \<lparr>s_index = df_index data, s_values = replicate (length xs) NaN\<rparr>
       \<and> calculate_bollinger_bands data window num_std
           = Inr (\<lparr>s_index = df_index data, s_values = replicate (length xs) NaN\<rparr>,
                  \<lparr>s_index = df_index data, s_values = replicate (length xs) NaN\<rparr>,
                  \<lparr>s_index = df_index data, s_values = replicate (length xs) NaN\<rparr>)
       \<and> calculate_rsi data window
           = Inr \<lparr>s_index = df_index data, s_values = replicate (length xs) NaN\<rparr>
       \<and> (\<exists>s. calculate_ema data window = Inr s \<and> s_index s = df_index data
              \<and> length (s_values s) = length xs \<and> (\<forall>v\<in>set (s_values s). is_fin v))
       \<and> (\<forall>fast slow signal. 1 \<le> fast \<and> 1 \<le> slow \<and> 1 \<le> signal \<longrightarrow>
            (\<exists>m sg h. calculate_macd data fast slow signal = Inr (m, sg, h)
               \<and> s_index m = df_index data \<and> s_index sg = df_index data
               \<and> s_index h = df_index data
               \<and> length (s_values m) = length xs \<and> length (s_values sg) = length xs
               \<and> length (s_values h) = length xs
               \<and> (\<forall>v\<in>set (s_values m @ s_values sg @ s_values h). is_fin v)))"
proof -
  have w: "0 \<le> window" "1 \<le> window" using assms(2) by linarith+
  have sma: "calculate_sma data window
           = Inr \<lparr>s_index = df_index data, s_values = replicate (length xs) NaN\<rparr>"
    using assms(1) w(1) by (simp add: calculate_sma_finite short_window [OF assms(2)])
  have bb: "calculate_bollinger_bands data window num_std
           = Inr (\<lparr>s_index = df_index data, s_values = replicate (length xs) NaN\<rparr>,
                  \<lparr>s_index = df_index data, s_values = replicate (length xs) NaN\<rparr>,
                  \<lparr>s_index = df_index data, s_values = replicate (length xs) NaN\<rparr>)"
    using assms(1) w(1)
    by (simp add: calculate_bollinger_bands_def sma close_column_get_close rolling_std_finite
        short_window [OF assms(2)] map2_replicate add64_def sub64_def mul64_def fsub_def
        Let_def)
  have rsi: "calculate_rsi data window
           = Inr \<lparr>s_index = df_index data, s_values = replicate (length xs) NaN\<rparr>"
    using assms(1) w(1)
    by (simp add: calculate_rsi_finite short_window [OF assms(2)] del: fdiv.simps fadd.simps)
  have ema: "\<exists>s. calculate_ema data window = Inr s \<and> s_index s = df_index data
              \<and> length (s_values s) = length xs \<and> (\<forall>v\<in>set (s_values s). is_fin v)"
    using assms(1) w(2) by (auto simp: calculate_ema_finite length_ema_list)
  have macd: "\<exists>m sg h. calculate_macd data fast slow signal = Inr (m, sg, h)
               \<and> s_index m = df_index data \<and> s_index sg = df_index data
               \<and> s_index h = df_index data
               \<and> length (s_values m) = length xs \<and> length (s_values sg) = length xs
               \<and> length (s_values h) = length xs
               \<and> (\<forall>v\<in>set (s_values m @ s_values sg @ s_values h). is_fin v)"
    if "1 \<le> fast \<and> 1 \<le> slow \<and> 1 \<le> signal" for fast slow signal
  proof -
    from that assms(1) obtain macd sig where
      "length macd = length xs" "length sig = length xs"
      "calculate_macd data fast slow signal =
        Inr (\<lparr>s_index = df_index data, s_values = map Fin macd\<rparr>,
             \<lparr>s_index = df_index data, s_values = map Fin sig\<rparr>,
             \<lparr>s_index = df_index data, s_values = map Fin (map2 (-) macd sig)\<rparr>)"
      using calculate_macd_finite [of data xs fast slow signal] by blast
    then show ?thesis by auto
  qed
  from sma bb rsi ema macd show ?thesis by blast
qed



theorem short_history_witness:
  "close_column \<lparr>df_index = [1::nat, 2], df_columns = Index [''Close''],
                 df_cells = [[1::real, 2]]\<rparr> = Some [1, 2]
   \<and> int (length [1::real, 2]) < 3
   \<and> calculate_sma \<lparr>df_index = [1::nat, 2], df_columns = Index [''Close''],
                     df_cells = [[1::real, 2]]\<rparr> 3
       = Inr \<lparr>s_index = [1, 2], s_values = [NaN, NaN]\<rparr>
   \<and> calculate_rsi \<lparr>df_index = [1::nat, 2], df_columns = Index [''Close''],
                     df_cells = [[1::real, 2]]\<rparr> 3
       = Inr \<lparr>s_index = [1, 2], s_values = [NaN, NaN]\<rparr>
   \<and> calculate_bollinger_bands \<lparr>df_index = [1::nat, 2], df_columns = Index [''Close''],
                                 df_cells = [[1::real, 2]]\<rparr> 3 2
       = Inr (\<lparr>s_index = [1, 2], s_values = [NaN, NaN]\<rparr>,
              \<lparr>s_index = [1, 2], s_values = [NaN, NaN]\<rparr>,
              \<lparr>s_index = [1, 2], s_values = [NaN, NaN]\<rparr>)
   \<and> calculate_ema \<lparr>df_index = [1::nat, 2], df_columns = Index [''Close''],
                     df_cells = [[1::real, 2]]\<rparr> 3
       = Inr \<lparr>s_index = [1, 2], s_values = [Fin 1, Fin (3 / 2)]\<rparr>
   \<and> calculate_macd \<lparr>df_index = [1::nat, 2], df_columns = Index [''Close''],
                      df_cells = [[1::real, 2]]\<rparr> 1 2 3
       = Inr (\<lparr>s_index = [1, 2], s_values = [Fin 0, Fin (1 / 3)]\<rparr>,
              \<lparr>s_index = [1, 2], s_values = [Fin 0, Fin (1 / 6)]\<rparr>,
              \<lparr>s_index = [1, 2], s_values = [Fin 0, Fin (1 / 6)]\<rparr>)"
  using short_history [of
      "\<lparr>df_index = [1::nat, 2], df_columns = Index [''Close''], df_cells = [[1::real, 2]]\<rparr>"
      "[1, 2]" 3 2]
  by (simp add: calculate_sma_def calculate_rsi_def calculate_bollinger_bands_def
      calculate_ema_def calculate_macd_def rsi_gain_def rsi_loss_def diff_def where_cond_def
      flt_def fsub_def add64_def sub64_def mul64_def get_close_def close_column_def
      get_level_values0_def rolling_mean_def rolling_std_def ewm_mean_def window_at_def
      observations_def mean_def upt_rec)

text \<open>
  C6 as it is written fails for the exponential average: with one close value and
  window 2 the result of \<open>calculate_ema\<close> is that value, not an undefined point.
\<close>

theorem short_history_counterexample:
  "calculate_ema \<lparr>df_index = [1::nat], df_columns = Index [''Close''],
                   df_cells = [[5::real]]\<rparr> 2
     = Inr \<lparr>s_index = [1], s_values = [Fin 5]\<rparr>"
  by (simp add: calculate_ema_def get_close_def close_column_def get_level_values0_def
      ewm_mean_def)

section \<open>Comparison summary: proofs\<close>

lemma round64_not_NaN [simp]: "round64 x \<noteq> NaN"
  by (simp add: round64_def Let_def)

lemma fround_NaN_iff [simp]: "fround v = NaN \<longleftrightarrow> v = NaN"
  by (cases v) (simp_all add: round64_def Let_def)

lemma sub64_NaN [simp]: "sub64 NaN v = NaN" "sub64 v NaN = NaN"
  by (simp_all add: sub64_def fsub_def)

lemma sub64_self: "sub64 (Fin x) (Fin x) = Fin 0"
  by (simp add: sub64_def fsub_def)

lemma sub64_abs:
  "sub64 (Fin x) (Fin y) = round64 (x - y)"
  by (simp add: sub64_def fsub_def)

lemma fgt_total:
  assumes "v \<noteq> NaN" and "w \<noteq> NaN" and "\<not> fgt v w" and "v \<noteq> w"
  shows "fgt w v"
  using assms by (cases v; cases w) auto

text \<open>With a first close that is not zero the return is a number or an infinity.\<close>

lemma return_not_NaN:
  assumes "f \<noteq> 0"
  shows "mul64 (div64 (sub64 (Fin l) (Fin f)) (Fin f)) (Fin 100) \<noteq> NaN"
proof -
  have d: "div64 (sub64 (Fin l) (Fin f)) (Fin f) \<noteq> NaN"
    using assms by (cases "round64 (l - f)") (simp_all add: div64_def sub64_abs)
  then show ?thesis
    by (cases "div64 (sub64 (Fin l) (Fin f)) (Fin f)")
      (simp_all add: mul64_def inf_of_sign_def)
qed

text \<open>The returns of the examples: from 100 to 105, from 100 to 103, and two nearby ones.\<close>

lemma return_100_105:
  "mul64 (div64 (sub64 (Fin 105) (Fin 100)) (Fin 100)) (Fin 100) = Fin 5"
proof -
  define q :: real where "q = 3602879701896397 / 2 ^ 56"
  have c: "sub64 (Fin 105) (Fin 100) = Fin 5"
    unfolding sub64_def fsub_def fneg.simps fadd.simps fround.simps
    by (rule round64_eval [where e = 2 and n = "5 * 2 ^ 50"]) simp_all
  have d: "div64 (Fin 5) (Fin 100) = Fin q"
    apply (simp add: div64_def q_def)
    apply (rule round64_eval [where e = "- 5" and n = 7205759403792794])
         apply (simp_all add: powr_neg_numeral round_even_def Let_def)
    done
  have m: "mul64 (Fin q) (Fin 100) = Fin 5"
    apply (simp add: mul64_def q_def)
    apply (rule round64_eval [where e = 2 and n = 5629499534213120])
         apply (simp_all add: powr_neg_numeral round_even_def Let_def)
    done
  show ?thesis by (simp only: c d m)
qed

lemma return_100_103:
  "mul64 (div64 (sub64 (Fin 103) (Fin 100)) (Fin 100)) (Fin 100) = Fin 3"
proof -
  define q :: real where "q = 1080863910568919 / 2 ^ 55"
  have c: "sub64 (Fin 103) (Fin 100) = Fin 3"
    unfolding sub64_def fsub_def fneg.simps fadd.simps fround.simps
    by (rule round64_eval [where e = 1 and n = "3 * 2 ^ 51"]) simp_all
  have d: "div64 (Fin 3) (Fin 100) = Fin q"
    apply (simp add: div64_def q_def)
    apply (rule round64_eval [where e = "- 6" and n = 8646911284551352])
         apply (simp_all add: powr_neg_numeral round_even_def Let_def)
    done
  have m: "mul64 (Fin q) (Fin 100) = Fin 3"
    apply (simp add: mul64_def q_def)
    apply (rule round64_eval [where e = 1 and n = 6755399441055744])
         apply (simp_all add: powr_neg_numeral round_even_def Let_def)
    done
  show ?thesis by (simp only: c d m)
qed

lemma return_701408733_1134903170:
  "mul64 (div64 (sub64 (Fin 1134903170) (Fin 701408733)) (Fin 701408733)) (Fin 100)
     = Fin (8698055129488525 / 2 ^ 47)"
proof -
  define q :: real where "q = 5566755282872656 / 2 ^ 53"
  have c: "sub64 (Fin 1134903170) (Fin 701408733) = Fin 433494437"
    unfolding sub64_def fsub_def fneg.simps fadd.simps fround.simps
    by (rule round64_eval [where e = 28 and n = 7272829804347392]) simp_all
  have d: "div64 (Fin 433494437) (Fin 701408733) = Fin q"
    apply (simp add: div64_def q_def)
    apply (rule round64_eval [where e = "- 1" and n = 5566755282872656])
         apply (simp_all add: powr_neg_numeral round_even_def Let_def)
    done
  have m: "mul64 (Fin q) (Fin 100) = Fin (8698055129488525 / 2 ^ 47)"
    apply (simp add: mul64_def q_def)
    apply (rule round64_eval [where e = 5 and n = 8698055129488525])
         apply (simp_all add: powr_neg_numeral round_even_def Let_def)
    done
  show ?thesis by (simp only: c d m)
qed

lemma return_1134903170_1836311903:
  "mul64 (div64 (sub64 (Fin 1836311903) (Fin 1134903170)) (Fin 1134903170)) (Fin 100)
     = Fin (8698055129488525 / 2 ^ 47)"
proof -
  define q :: real where "q = 5566755282872656 / 2 ^ 53"
  have c: "sub64 (Fin 1836311903) (Fin 1134903170) = Fin 701408733"
    unfolding sub64_def fsub_def fneg.simps fadd.simps fround.simps
    by (rule round64_eval [where e = 29 and n = 5883842908913664]) simp_all
  have d: "div64 (Fin 701408733) (Fin 1134903170) = Fin q"
    apply (simp add: div64_def q_def)
    apply (rule round64_eval [where e = "- 1" and n = 5566755282872656])
         apply (simp_all add: powr_neg_numeral round_even_def Let_def)
    done
  have m: "mul64 (Fin q) (Fin 100) = Fin (8698055129488525 / 2 ^ 47)"
    apply (simp add: mul64_def q_def)
    apply (rule round64_eval [where e = 5 and n = 8698055129488525])
         apply (simp_all add: powr_neg_numeral round_even_def Let_def)
    done
  show ?thesis by (simp only: c d m)
qed

lemma return_0_0: "mul64 (div64 (sub64 (Fin 0) (Fin 0)) (Fin 0)) (Fin 100) = NaN"
  by (simp add: mul64_def div64_def sub64_def fsub_def inf_of_sign_def)

lemma sub64_5_3: "sub64 (Fin 5) (Fin 3) = Fin 2"
  unfolding sub64_def fsub_def fneg.simps fadd.simps fround.simps
  by (rule round64_eval [where e = 1 and n = "2 ^ 52"]) simp_all

text \<open>
  C9 as it is written fails when a first close is zero: with VOO going from 100 to 105
  and JEPI staying at 0, the return of JEPI is \<open>0 / 0\<close>, not a number; the comparison
  with it is false, so JEPI is named, with a differential that is not a number, although
  VOO has the only return there is, 5 percent.
\<close>

theorem comparison_summary_counterexample:
  "print_comparison_summary
      \<lparr>df_index = [1::nat, 2], df_columns = Index [''Close''], df_cells = [[100::real, 105]]\<rparr>
      \<lparr>df_index = [1::nat, 2], df_columns = Index [''Close''], df_cells = [[0::real, 0]]\<rparr>
     = Inr \<lparr>voo_latest = Fin 105, jepi_latest = Fin 0, voo_return = Fin 5,
             jepi_return = NaN, outperformer = JEPI, differential = NaN\<rparr>"
  by (simp add: print_comparison_summary_def get_column_values_def get_close_def
      close_column_def get_level_values0_def period_return_def return_100_105 return_0_0)

text \<open>
  C9, as the code has it: for two tables with non-empty close columns,
  \<open>print_comparison_summary\<close> computes for each the return
  \<open>(latest - first) / first * 100\<close> in binary64 arithmetic, every operation rounded. It
  names VOO exactly when the computed return of VOO is strictly greater than that of
  JEPI, and JEPI otherwise, and reports the rounded difference of the two computed
  returns, the winner's minus the other's. For two finite computed returns this is the
  rounded absolute difference, and JEPI is named when they are equal. When both first
  closes are not zero no return is \<open>NaN\<close>, and JEPI, when named with a return different
  from that of VOO, has the strictly greater one. A return that is \<open>NaN\<close> makes JEPI the
  one named, with a differential that is \<open>NaN\<close>.
\<close>

theorem comparison_summary_computed_returns:
  assumes "close_column voo_data = Some a" and "close_column jepi_data = Some b"
    and "a \<noteq> []" and "b \<noteq> []"
  shows "\<exists>r. print_comparison_summary voo_data jepi_data = Inr r
           \<and> voo_return r
               = mul64 (div64 (sub64 (Fin (last a)) (Fin (hd a))) (Fin (hd a))) (Fin 100)
           \<and> jepi_return r
               = mul64 (div64 (sub64 (Fin (last b)) (Fin (hd b))) (Fin (hd b))) (Fin 100)
           \<and> outperformer r = (if fgt (voo_return r) (jepi_return r) then VOO else JEPI)
           \<and> differential r
               = (if fgt (voo_return r) (jepi_return r)
                  then sub64 (voo_return r) (jepi_return r)
                  else sub64 (jepi_return r) (voo_return r))
           \<and> (\<forall>x y. voo_return r = Fin x \<and> jepi_return r = Fin y \<longrightarrow>
                  outperformer r = (if y < x then VOO else JEPI)
                  \<and> differential r = round64 \<bar>x - y\<bar>
                  \<and> (x = y \<longrightarrow> outperformer r = JEPI))
           \<and> (hd a \<noteq> 0 \<and> hd b \<noteq> 0 \<longrightarrow>
                  voo_return r \<noteq> NaN \<and> jepi_return r \<noteq> NaN
                  \<and> (outperformer r = JEPI \<and> voo_return r \<noteq> jepi_return r
                       \<longrightarrow> fgt (jepi_return r) (voo_return r)))
           \<and> (voo_return r = NaN \<or> jepi_return r = NaN \<longrightarrow>
                  outperformer r = JEPI \<and> differential r = NaN)"
proof -
  define v where "v = mul64 (div64 (sub64 (Fin (last a)) (Fin (hd a))) (Fin (hd a))) (Fin 100)"
  define j where "j = mul64 (div64 (sub64 (Fin (last b)) (Fin (hd b))) (Fin (hd b))) (Fin 100)"
  define r where
    "r = \<lparr>voo_latest = Fin (last a), jepi_latest = Fin (last b),
           voo_return = v, jepi_return = j,
           outperformer = (if fgt v j then VOO else JEPI),
           differential = (if fgt v j then sub64 v j else sub64 j v)\<rparr>"
  have run: "print_comparison_summary voo_data jepi_data = Inr r"
    using assms
    by (simp add: print_comparison_summary_def get_column_values_def close_column_get_close
        period_return_def last_map hd_map r_def v_def j_def)
  have fin: "outperformer r = (if y < x then VOO else JEPI)
             \<and> differential r = round64 \<bar>x - y\<bar> \<and> (x = y \<longrightarrow> outperformer r = JEPI)"
    if "voo_return r = Fin x \<and> jepi_return r = Fin y" for x y
    using that by (auto simp: r_def sub64_abs abs_if)
  have nz: "voo_return r \<noteq> NaN \<and> jepi_return r \<noteq> NaN
            \<and> (outperformer r = JEPI \<and> voo_return r \<noteq> jepi_return r
                 \<longrightarrow> fgt (jepi_return r) (voo_return r))"
    if "hd a \<noteq> 0 \<and> hd b \<noteq> 0"
  proof -
    from that have "v \<noteq> NaN" "j \<noteq> NaN"
      unfolding v_def j_def by (simp_all add: return_not_NaN)
    then show ?thesis
      using fgt_total [of v j] by (auto simp: r_def split: if_splits)
  qed
  have nan: "outperformer r = JEPI \<and> differential r = NaN"
    if "voo_return r = NaN \<or> jepi_return r = NaN"
    using that by (auto simp: r_def)
  have "voo_return r = v" "jepi_return r = j"
    "outperformer r = (if fgt (voo_return r) (jepi_return r) then VOO else JEPI)"
    "differential r = (if fgt (voo_return r) (jepi_return r)
                       then sub64 (voo_return r) (jepi_return r)
                       else sub64 (jepi_return r) (voo_return r))"
    by (simp_all add: r_def)
  with run fin nz nan show ?thesis
    unfolding v_def j_def by blast
qed

theorem comparison_summary_computed_returns_witness:
  "close_column \<lparr>df_index = [1::nat, 2], df_columns = Index [''Close''],
                 df_cells = [[100::real, 105]]\<rparr> = Some [100, 105]
   \<and> close_column \<lparr>df_index = [1::nat, 2], df_columns = Index [''Close''],
                   df_cells = [[100::real, 103]]\<rparr> = Some [100, 103]
   \<and> [100::real, 105] \<noteq> [] \<and> [100::real, 103] \<noteq> []
   \<and> print_comparison_summary
        \<lparr>df_index = [1::nat, 2], df_columns = Index [''Close''], df_cells = [[100::real, 105]]\<rparr>
        \<lparr>df_index = [1::nat, 2], df_columns = Index [''Close''], df_cells = [[100::real, 103]]\<rparr>
       = Inr \<lparr>voo_latest = Fin 105, jepi_latest = Fin 103, voo_return = Fin 5,
               jepi_return = Fin 3, outperformer = VOO, differential = Fin 2\<rparr>
   \<and> print_comparison_summary
        \<lparr>df_index = [1::nat, 2], df_columns = Index [''Close''], df_cells = [[100::real, 103]]\<rparr>
        \<lparr>df_index = [1::nat, 2], df_columns = Index [''Close''], df_cells = [[100::real, 103]]\<rparr>
       = Inr \<lparr>voo_latest = Fin 103, jepi_latest = Fin 103, voo_return = Fin 3,
               jepi_return = Fin 3, outperformer = JEPI, differential = Fin 0\<rparr>
   \<and> print_comparison_summary
        \<lparr>df_index = [1::nat, 2], df_columns = Index [''Close''],
          df_cells = [[701408733::real, 1134903170]]\<rparr>
        \<lparr>df_index = [1::nat, 2], df_columns = Index [''Close''],
          df_cells = [[1134903170::real, 1836311903]]\<rparr>
       = Inr \<lparr>voo_latest = Fin 1134903170, jepi_latest = Fin 1836311903,
               voo_return = Fin (8698055129488525 / 2 ^ 47),
               jepi_return = Fin (8698055129488525 / 2 ^ 47),
               outperformer = JEPI, differential = Fin 0\<rparr>
   \<and> (1836311903 - 1134903170) / 1134903170 * 100
       < (1134903170 - 701408733) / 701408733 * (100::real)"
  using comparison_summary_computed_returns [of
      "\<lparr>df_index = [1::nat, 2], df_columns = Index [''Close''], df_cells = [[100::real, 105]]\<rparr>"
      "[100, 105]"
      "\<lparr>df_index = [1::nat, 2], df_columns = Index [''Close''], df_cells = [[100::real, 103]]\<rparr>"
      "[100, 103]"]
    comparison_summary_computed_returns [of
      "\<lparr>df_index = [1::nat, 2], df_columns = Index [''Close''],
        df_cells = [[701408733::real, 1134903170]]\<rparr>"
      "[701408733, 1134903170]"
      "\<lparr>df_index = [1::nat, 2], df_columns = Index [''Close''],
        df_cells = [[1134903170::real, 1836311903]]\<rparr>"
      "[1134903170, 1836311903]"]
  by (simp add: print_comparison_summary_def get_column_values_def get_close_def
      close_column_def get_level_values0_def period_return_def return_100_105 return_100_103
      return_701408733_1134903170 return_1134903170_1836311903 sub64_5_3 sub64_self)

end
